theory Spec2Isabelle
  imports Main
begin

section \<open>Strings as Python uses them\<close>

text \<open>
  Python strings are modelled as \<open>string\<close> (lists of characters). \<open>endswith\<close>,
  \<open>str.join\<close>, \<open>str.replace\<close>, \<open>str.lower\<close> and \<open>str.strip(chars)\<close> are written out
  as the interpreter computes them on ASCII text.
\<close>

definition endswith :: "string \<Rightarrow> string \<Rightarrow> bool" where
  "endswith s suffix = (length suffix \<le> length s \<and> drop (length s - length suffix) s = suffix)"

fun join :: "string \<Rightarrow> string list \<Rightarrow> string" where
  "join sep [] = []"
| "join sep [x] = x"
| "join sep (x # y # ys) = x @ sep @ join sep (y # ys)"

text \<open>
  \<open>s.replace(old, new)\<close> replaces the occurrences of \<open>old\<close> from left to right, without
  overlap. With an empty \<open>old\<close> it puts \<open>new\<close> before every character and at the end.
\<close>

function replace_from :: "string \<Rightarrow> string \<Rightarrow> string \<Rightarrow> string" where
  "replace_from old new [] = []"
| "replace_from old new (c # cs) =
     (if old \<noteq> [] \<and> take (length old) (c # cs) = old
      then new @ replace_from old new (drop (length old) (c # cs))
      else c # replace_from old new cs)"
  by pat_completeness auto
termination
  by (relation "measure (\<lambda>(old, new, s). length s)") auto

definition replace :: "string \<Rightarrow> string \<Rightarrow> string \<Rightarrow> string" where
  "replace s old new =
     (if old = [] then new @ concat (map (\<lambda>c. c # new) s) else replace_from old new s)"

text \<open>\<open>s.lower()\<close> on ASCII text: the letters \<open>A\<close> to \<open>Z\<close> move to \<open>a\<close> to \<open>z\<close>.\<close>

definition lower_char :: "char \<Rightarrow> char" where
  "lower_char c =
     (case map_of (zip ''ABCDEFGHIJKLMNOPQRSTUVWXYZ'' ''abcdefghijklmnopqrstuvwxyz'') c of
        None \<Rightarrow> c
      | Some l \<Rightarrow> l)"

definition lower :: "string \<Rightarrow> string" where
  "lower s = map lower_char s"

text \<open>\<open>s.strip(chars)\<close> removes the leading and trailing characters that occur in \<open>chars\<close>.\<close>

definition strip :: "string \<Rightarrow> string \<Rightarrow> string" where
  "strip chars s = rev (dropWhile (\<lambda>c. c \<in> set chars) (rev (dropWhile (\<lambda>c. c \<in> set chars) s)))"

text \<open>
  Numbers in f-strings: \<open>decimal\<close> is \<open>str(n)\<close> (the \<open>%d\<close> of the logging calls) for a number
  that is not negative, \<open>format_comma_d\<close> the format \<open>{n:,d}\<close>, which separates groups of three
  digits by commas.
\<close>

definition digit :: "nat \<Rightarrow> char" where
  "digit d = ''0123456789'' ! d"

function decimal :: "nat \<Rightarrow> string" where
  "decimal n = (if n < 10 then [digit n] else decimal (n div 10) @ [digit (n mod 10)])"
  by pat_completeness auto
termination
  by (relation "measure id") auto

declare decimal.simps [simp del]

fun groups3 :: "string \<Rightarrow> string list" where
  "groups3 (a # b # c # d # rest) = [a, b, c] # groups3 (d # rest)"
| "groups3 s = [s]"

definition format_comma_d :: "nat \<Rightarrow> string" where
  "format_comma_d n = rev (join '','' (groups3 (rev (decimal n))))"

section \<open>infrastructure/constructs/sqs.py: QueueWithDLQ\<close>

text \<open>
  The constructor fails in three ways: its own assertion on the name, a \<open>Duration\<close> that
  cannot be built, and an \<open>aws_sqs.Queue\<close> that refuses its arguments.
\<close>

datatype construct_error =
    AssertionError string
  | DurationError string
  | QueueError string

text \<open>
  \<open>Duration\<close> is an amount of time; it is kept in seconds, \<open>Duration.days(n)\<close> being
  \<open>n * 86400\<close> seconds. A negative amount raises.
\<close>

datatype duration = Duration int

definition duration_seconds :: "int \<Rightarrow> construct_error + duration" where
  "duration_seconds n =
     (if n < 0 then Inl (DurationError ''Duration amounts cannot be negative'') else Inr (Duration n))"

definition duration_days :: "int \<Rightarrow> construct_error + duration" where
  "duration_days n =
     (if n < 0 then Inl (DurationError ''Duration amounts cannot be negative'')
      else Inr (Duration (n * 86400)))"

text \<open>
  The keyword arguments handed to \<open>aws_sqs.Queue\<close>. The two FIFO arguments are optional
  because the constructor passes them only through \<open>fifo_params\<close>; \<open>None\<close> is an argument
  that was not passed. The dead-letter queue is referred to by its queue name.
\<close>

record dead_letter_queue_props =
  max_receive_count :: int
  dlq_queue :: string

record queue_props =
  construct_id :: string
  queue_name :: string
  retention_period :: duration
  visibility_timeout :: duration
  fifo :: "bool option"
  content_based_deduplication :: "bool option"
  dead_letter_queue :: "dead_letter_queue_props option"

record queue_with_dlq =
  qd_dead_letter_queue :: "queue_props option"
  qd_queue :: queue_props

text \<open>
  \<open>aws_sqs.Queue(self, id, ...)\<close>: the library checks the arguments and raises when it
  refuses them; \<open>queue_error props\<close> is the message of that refusal, \<open>None\<close> when the queue is
  created. The two durations are built first, in the order of the keyword arguments.
\<close>

definition Queue ::
  "(queue_props \<Rightarrow> string option) \<Rightarrow> string \<Rightarrow> string \<Rightarrow> int \<Rightarrow> bool option \<Rightarrow> bool option \<Rightarrow>
   dead_letter_queue_props option \<Rightarrow> construct_error + queue_props" where
  "Queue queue_error ident name vis_timeout fifo_fifo fifo_dedup dlq =
     (case duration_days 14 of
        Inl e \<Rightarrow> Inl e
      | Inr retention \<Rightarrow>
          (case duration_seconds vis_timeout of
             Inl e \<Rightarrow> Inl e
           | Inr visibility \<Rightarrow>
               (let props = \<lparr> construct_id = ident, queue_name = name,
                               retention_period = retention, visibility_timeout = visibility,
                               fifo = fifo_fifo, content_based_deduplication = fifo_dedup,
                               dead_letter_queue = dlq \<rparr>
                in case queue_error props of
                     Some msg \<Rightarrow> Inl (QueueError msg)
                   | None \<Rightarrow> Inr props)))"

definition QueueWithDLQ ::
  "(queue_props \<Rightarrow> string option) \<Rightarrow> string \<Rightarrow> string \<Rightarrow> bool \<Rightarrow> int \<Rightarrow> bool \<Rightarrow> bool \<Rightarrow> int \<Rightarrow>
   construct_error + queue_with_dlq" where
  "QueueWithDLQ queue_error ident name create_dlq max_receive is_fifo content_dedup vis_timeout =
    (if endswith name ''.fifo''
     then Inl (AssertionError ''Queue name must not end with .fifo, use the is_fifo argument instead'')
     else
       let fifo_fifo = (if is_fifo then Some True else None);
           fifo_dedup = (if is_fifo then Some content_dedup else None)
       in case (if create_dlq
                then (case Queue queue_error (ident @ '' DLQ'')
                             (if is_fifo then name @ ''-dlq.fifo'' else name @ ''-dlq'')
                             vis_timeout fifo_fifo fifo_dedup None of
                        Inl e \<Rightarrow> Inl e
                      | Inr d \<Rightarrow> Inr (Some d))
                else Inr None) of
            Inl e \<Rightarrow> Inl e
          | Inr dlq \<Rightarrow>
              (case Queue queue_error ident (if is_fifo then name @ ''.fifo'' else name)
                      vis_timeout fifo_fifo fifo_dedup
                      (case dlq of
                         Some d \<Rightarrow> Some \<lparr> max_receive_count = max_receive, dlq_queue = queue_name d \<rparr>
                       | None \<Rightarrow> None) of
                 Inl e \<Rightarrow> Inl e
               | Inr q \<Rightarrow> Inr \<lparr> qd_dead_letter_queue = dlq, qd_queue = q \<rparr>))"

section \<open>scripts/create\_github\_oidc\_role.py\<close>

text \<open>
  A \<open>botocore\<close> client error carries an error code and a message. A call of the IAM client
  either returns, raises a \<open>ClientError\<close>, or raises something that is not a
  \<open>ClientError\<close> (which no handler of the script catches).
\<close>

record client_error =
  error_code :: string
  error_text :: string

datatype 'a api_result = Returned 'a | ClientError client_error | OtherError string

text \<open>
  The lines the script prints. Each constructor stands for one \<open>print\<close> call of the source
  and carries what the f-string interpolates (a name, or the error whose text is printed).
\<close>

datatype message =
    ErrorGettingAccountId client_error
  | RoleCreated string
  | ErrorWaitingForRole client_error
  | FailedToConfirmRole
  | RoleAlreadyExists string
  | ErrorCreatingRole client_error
  | PolicyCreated string
  | FailedToConfirmPolicy
  | PolicyAlreadyExists string
  | ErrorGettingExistingPolicy client_error
  | ErrorCreatingPolicy client_error
  | PolicyAttached
  | VerifiedPolicyAttachment
  | PolicyAttachmentVerificationFailed
  | ErrorAttachingPolicy client_error
  | AllOperationsCompleted

text \<open>
  What the script does to the outside world, in order: the calls of the STS and IAM clients
  with their arguments (the waiter call with its \<open>Delay\<close> and \<open>MaxAttempts\<close>), the sleeps and
  the printed lines.
\<close>

datatype event =
    GetCallerIdentity
  | CreateRole string
  | WaitRoleExists string nat nat
  | CreatePolicy string
  | GetPolicy string
  | Sleep nat
  | AttachRolePolicy string string
  | ListAttachedRolePolicies string
  | Print message

text \<open>How a function of the script ends.\<close>

datatype 'a outcome = Return 'a | Raise_ClientError client_error | Raise_Other string

text \<open>
  The IAM service as \<open>wait_for_policy\<close> sees it: \<open>get_policy k arn\<close> is the answer to the
  \<open>k\<close>-th \<open>get_policy\<close> call of the run (counted from 0). The loop
  \<open>for attempt in range(max_attempts)\<close> is a recursion on the number of attempts left;
  \<open>k\<close> counts the calls made so far and the events are returned in the order they happen.
\<close>

fun wait_for_policy_loop ::
  "(nat \<Rightarrow> string \<Rightarrow> string api_result) \<Rightarrow> string \<Rightarrow> nat \<Rightarrow> nat \<Rightarrow> nat \<Rightarrow> event list \<times> bool outcome" where
  "wait_for_policy_loop get_policy policy_arn delay k 0 = ([], Return False)"
| "wait_for_policy_loop get_policy policy_arn delay k (Suc n) =
     (case get_policy k policy_arn of
        Returned _ \<Rightarrow> ([GetPolicy policy_arn], Return True)
      | ClientError e \<Rightarrow>
          (if error_code e = ''NoSuchEntity''
           then (let (evs, r) = wait_for_policy_loop get_policy policy_arn delay (Suc k) n
                 in (GetPolicy policy_arn # Sleep delay # evs, r))
           else ([GetPolicy policy_arn], Raise_ClientError e))
      | OtherError x \<Rightarrow> ([GetPolicy policy_arn], Raise_Other x))"

text \<open>
  \<open>max_attempts\<close> is a Python integer: \<open>range\<close> of a number below one is empty.
  \<open>k0\<close> is the number of \<open>get_policy\<close> calls made before this one.
\<close>

definition wait_for_policy ::
  "(nat \<Rightarrow> string \<Rightarrow> string api_result) \<Rightarrow> nat \<Rightarrow> string \<Rightarrow> int \<Rightarrow> nat \<Rightarrow> event list \<times> bool outcome" where
  "wait_for_policy get_policy k0 policy_arn max_attempts delay =
     wait_for_policy_loop get_policy policy_arn delay k0 (nat max_attempts)"

text \<open>Readings of a trace.\<close>

definition get_policy_calls :: "event list \<Rightarrow> nat" where
  "get_policy_calls evs = length (filter (\<lambda>e. case e of GetPolicy _ \<Rightarrow> True | _ \<Rightarrow> False) evs)"

definition sleeps :: "event list \<Rightarrow> nat list" where
  "sleeps evs = concat (map (\<lambda>e. case e of Sleep d \<Rightarrow> [d] | _ \<Rightarrow> []) evs)"

definition no_such_entity :: "string api_result \<Rightarrow> bool" where
  "no_such_entity r = (case r of ClientError e \<Rightarrow> error_code e = ''NoSuchEntity'' | _ \<Rightarrow> False)"


subsection \<open>main\<close>

definition ROLE_NAME :: string where
  "ROLE_NAME = ''salesforce-integration-deployment-role''"

definition POLICY_NAME :: string where
  "POLICY_NAME = ''salesforce-integration-cdk-deployment-policy''"

text \<open>
  The answers of AWS to the calls \<open>main\<close> makes. Every call but \<open>get_policy\<close> is made at
  most once in a run, so one answer each is enough; \<open>get_policy k arn\<close> answers the \<open>k\<close>-th
  \<open>get_policy\<close> call. \<open>get_caller_identity\<close> returns the account id, \<open>create_policy\<close> and
  \<open>get_policy\<close> the ARN of the policy, \<open>list_attached_role_policies\<close> the names of the
  attached policies. The fields are named after the client (\<open>sts\<close>, \<open>iam\<close>) and its method;
  \<open>iam_role_exists_waiter\<close> is \<open>iam_client.get_waiter("role_exists").wait\<close>.
\<close>

record aws =
  sts_get_caller_identity :: "string api_result"
  iam_create_role :: "unit api_result"
  iam_role_exists_waiter :: "unit api_result"
  iam_create_policy :: "string api_result"
  iam_get_policy :: "nat \<Rightarrow> string \<Rightarrow> string api_result"
  iam_attach_role_policy :: "unit api_result"
  iam_list_attached_role_policies :: "string list api_result"

definition wait_for_role :: "aws \<Rightarrow> string \<Rightarrow> nat \<Rightarrow> nat \<Rightarrow> event list \<times> bool outcome" where
  "wait_for_role w role_name max_attempts delay =
     (case iam_role_exists_waiter w of
        Returned _ \<Rightarrow> ([WaitRoleExists role_name delay max_attempts], Return True)
      | ClientError e \<Rightarrow>
          ([WaitRoleExists role_name delay max_attempts, Print (ErrorWaitingForRole e)], Return False)
      | OtherError x \<Rightarrow> ([WaitRoleExists role_name delay max_attempts], Raise_Other x))"

text \<open>
  \<open>main\<close> is a sequence of three \<open>try\<close> statements. Each one either falls through to the
  next statement with the value it bound (\<open>Continue\<close>), executes \<open>return\<close> (\<open>Stop\<close>), or
  lets an exception escape that no handler catches (\<open>Crash\<close>).
\<close>

datatype 'a stage = Continue 'a | Stop | Crash string

text \<open>The \<open>except ClientError\<close> handler of the role-creation \<open>try\<close>.\<close>

definition role_handler :: "client_error \<Rightarrow> event list \<times> unit stage" where
  "role_handler e =
     (if error_code e = ''EntityAlreadyExists''
      then ([Print (RoleAlreadyExists ROLE_NAME)], Continue ())
      else ([Print (ErrorCreatingRole e)], Stop))"

definition create_role_stage :: "aws \<Rightarrow> event list \<times> unit stage" where
  "create_role_stage w =
     (case iam_create_role w of
        Returned _ \<Rightarrow>
          (let (evs, r) = wait_for_role w ROLE_NAME 10 2;
               done = [CreateRole ROLE_NAME, Print (RoleCreated ROLE_NAME)] @ evs
           in case r of
                Return ok \<Rightarrow>
                  (if \<not> ok then (done @ [Print FailedToConfirmRole], Stop) else (done, Continue ()))
              | Raise_ClientError e \<Rightarrow> (let (evs', s) = role_handler e in (done @ evs', s))
              | Raise_Other x \<Rightarrow> (done, Crash x))
      | ClientError e \<Rightarrow> (let (evs', s) = role_handler e in (CreateRole ROLE_NAME # evs', s))
      | OtherError x \<Rightarrow> ([CreateRole ROLE_NAME], Crash x))"

text \<open>
  The \<open>except ClientError\<close> handler of the policy-creation \<open>try\<close>; \<open>k\<close> is the number of
  \<open>get_policy\<close> calls made so far.
\<close>

definition policy_handler :: "aws \<Rightarrow> string \<Rightarrow> nat \<Rightarrow> client_error \<Rightarrow> event list \<times> string stage" where
  "policy_handler w account_id k e =
     (if error_code e = ''EntityAlreadyExists''
      then (let arn = ''arn:aws:iam::'' @ account_id @ '':policy/'' @ POLICY_NAME
            in case iam_get_policy w k arn of
                 Returned policy_arn \<Rightarrow>
                   ([GetPolicy arn, Print (PolicyAlreadyExists POLICY_NAME)], Continue policy_arn)
               | ClientError e' \<Rightarrow> ([GetPolicy arn, Print (ErrorGettingExistingPolicy e')], Stop)
               | OtherError x \<Rightarrow> ([GetPolicy arn], Crash x))
      else ([Print (ErrorCreatingPolicy e)], Stop))"

definition create_policy_stage :: "aws \<Rightarrow> string \<Rightarrow> event list \<times> string stage" where
  "create_policy_stage w account_id =
     (case iam_create_policy w of
        Returned policy_arn \<Rightarrow>
          (let (evs, r) = wait_for_policy (iam_get_policy w) 0 policy_arn 10 2;
               done = [CreatePolicy POLICY_NAME, Print (PolicyCreated POLICY_NAME)] @ evs
           in case r of
                Return ok \<Rightarrow>
                  (if \<not> ok then (done @ [Print FailedToConfirmPolicy], Stop)
                   else (done, Continue policy_arn))
              | Raise_ClientError e \<Rightarrow>
                  (let (evs', s) = policy_handler w account_id (get_policy_calls evs) e
                   in (done @ evs', s))
              | Raise_Other x \<Rightarrow> (done, Crash x))
      | ClientError e \<Rightarrow>
          (let (evs', s) = policy_handler w account_id 0 e in (CreatePolicy POLICY_NAME # evs', s))
      | OtherError x \<Rightarrow> ([CreatePolicy POLICY_NAME], Crash x))"

definition attach_stage :: "aws \<Rightarrow> string \<Rightarrow> event list \<times> unit stage" where
  "attach_stage w policy_arn =
     (case iam_attach_role_policy w of
        Returned _ \<Rightarrow>
          (let done = [AttachRolePolicy ROLE_NAME policy_arn, Print PolicyAttached,
                       ListAttachedRolePolicies ROLE_NAME]
           in case iam_list_attached_role_policies w of
                Returned attached_policies \<Rightarrow>
                  (done @ [Print (if list_ex (\<lambda>policy. policy = POLICY_NAME) attached_policies
                                  then VerifiedPolicyAttachment
                                  else PolicyAttachmentVerificationFailed)],
                   Continue ())
              | ClientError e \<Rightarrow> (done @ [Print (ErrorAttachingPolicy e)], Stop)
              | OtherError x \<Rightarrow> (done, Crash x))
      | ClientError e \<Rightarrow>
          ([AttachRolePolicy ROLE_NAME policy_arn, Print (ErrorAttachingPolicy e)], Stop)
      | OtherError x \<Rightarrow> ([AttachRolePolicy ROLE_NAME policy_arn], Crash x))"

text \<open>How \<open>main\<close> ends once a stage has executed \<open>return\<close> or let an exception escape.\<close>

definition leave :: "'a stage \<Rightarrow> unit outcome" where
  "leave s = (case s of Crash x \<Rightarrow> Raise_Other x | _ \<Rightarrow> Return ())"

definition main :: "aws \<Rightarrow> event list \<times> unit outcome" where
  "main w =
     (case sts_get_caller_identity w of
        ClientError e \<Rightarrow> ([GetCallerIdentity, Print (ErrorGettingAccountId e)], Return ())
      | OtherError x \<Rightarrow> ([GetCallerIdentity], Raise_Other x)
      | Returned account_id \<Rightarrow>
          (let (evs1, s1) = create_role_stage w
           in case s1 of
                Continue _ \<Rightarrow>
                  (let (evs2, s2) = create_policy_stage w account_id
                   in case s2 of
                        Continue policy_arn \<Rightarrow>
                          (let (evs3, s3) = attach_stage w policy_arn;
                               evs = GetCallerIdentity # evs1 @ evs2 @ evs3
                           in case s3 of
                                Continue _ \<Rightarrow> (evs @ [Print AllOperationsCompleted], Return ())
                              | _ \<Rightarrow> (evs, leave s3))
                      | _ \<Rightarrow> (GetCallerIdentity # evs1 @ evs2, leave s2))
              | _ \<Rightarrow> (GetCallerIdentity # evs1, leave s1)))"

text \<open>The \<open>attach_role_policy\<close> calls of a trace, as (role name, policy ARN).\<close>

definition attach_calls :: "event list \<Rightarrow> (string \<times> string) list" where
  "attach_calls evs = concat (map (\<lambda>e. case e of AttachRolePolicy r p \<Rightarrow> [(r, p)] | _ \<Rightarrow> []) evs)"
section \<open>scripts/create\_repos\_and\_branches.py: the loop of create\_branches\<close>

text \<open>
  The git refs of the repository on GitHub: a map from the full name of a ref
  (\<open>refs/heads/main\<close>) to the SHA it points to.
\<close>

type_synonym git_refs = "string \<rightharpoonup> string"


text \<open>The lines the loop prints, and what it does, in order.\<close>

datatype branch_message =
    BranchAlreadyExists string
  | CreatingBranch string string
  | BranchCreated string
  | ErrorCreatingBranch string string

datatype branch_event =
    GetGitRef string
  | CreateGitRef string string
  | ConsolePrint branch_message
  | SleepHalfSecond





text \<open>
  How an iteration ends: it completes (also by \<open>continue\<close>), or a \<open>MarkupError\<close> escapes,
  which neither \<open>except GithubException\<close> clause catches and which ends the loop.
\<close>

datatype loop_end = Completed | MarkupError

type_synonym loop_result = "branch_event list \<times> git_refs \<times> loop_end"

definition loop_events :: "loop_result \<Rightarrow> branch_event list" where
  "loop_events r = fst r"

definition loop_refs :: "loop_result \<Rightarrow> git_refs" where
  "loop_refs r = fst (snd r)"

definition loop_end :: "loop_result \<Rightarrow> loop_end" where
  "loop_end r = snd (snd r)"



text \<open>The refs a trace asked GitHub to create.\<close>

definition create_git_ref_calls :: "branch_event list \<Rightarrow> string list" where
  "create_git_ref_calls evs = concat (map (\<lambda>e. case e of CreateGitRef ref _ \<Rightarrow> [ref] | _ \<Rightarrow> []) evs)"

section \<open>integration/config: Settings\<close>

subsection \<open>Field validation\<close>

text \<open>
  What the environment, the \<open>.env\<close> files and the keyword arguments supply for the fields
  of \<open>Settings\<close>; \<open>None\<close> is a field nothing supplies, which then takes its default. The
  fields that have neither a validator nor a part in one (\<open>CLIENT_NAME\<close>, \<open>PROJECT_NAME\<close>,
  \<open>PROJECT_DESCRIPTION\<close>, \<open>PROJECT_VERSION\<close>, \<open>XRAY_ENABLED\<close>) are left out.
\<close>

record settings_input =
  in_PROJECT_SLUG :: "string option"
  in_ENVIRONMENT :: "string option"
  in_AWS_RESOURCE_SUFFIX :: "string option"
  in_AWS_ACCOUNT_ID :: "string option"
  in_AWS_REGION :: "string option"
  in_S3_BUCKET_STORAGE :: "string option"
  in_SQS_QUEUE_MESSAGES :: "string option"

record settings =
  PROJECT_SLUG :: string
  ENVIRONMENT :: string
  AWS_RESOURCE_SUFFIX :: string
  AWS_ACCOUNT_ID :: string
  AWS_REGION :: string
  S3_BUCKET_STORAGE :: string
  SQS_QUEUE_MESSAGES :: string

text \<open>
  A \<open>ValidationError\<close> lists the fields that failed. A \<open>KeyError\<close> raised inside a field
  validator, or an error of the STS call, is not a validation error and leaves \<open>Settings()\<close>
  at once.
\<close>

datatype settings_error =
    ValidationError "string list"
  | KeyError string
  | StsError string

definition ENVIRONMENTS :: "string list" where
  "ENVIRONMENTS = [''testing'', ''development'', ''staging'', ''production'']"

definition field_or :: "string \<Rightarrow> string option \<Rightarrow> string" where
  "field_or dflt v = (case v of None \<Rightarrow> dflt | Some x \<Rightarrow> x)"

text \<open>\<open>info.data[key]\<close>: the fields validated so far, a \<open>KeyError\<close> for any other key.\<close>

definition data_get :: "(string \<rightharpoonup> string) \<Rightarrow> string \<Rightarrow> settings_error + string" where
  "data_get data key = (case data key of None \<Rightarrow> Inl (KeyError key) | Some v \<Rightarrow> Inr v)"

definition construct_aws_resource_suffix :: "string \<Rightarrow> (string \<rightharpoonup> string) \<Rightarrow> settings_error + string" where
  "construct_aws_resource_suffix value data =
     (if value \<noteq> ''<changeme>'' then Inr value else data_get data ''ENVIRONMENT'')"

text \<open>\<open>sts_account\<close> is what \<open>boto3.client("sts").get_caller_identity()["Account"]\<close> gives.\<close>

definition validate_account_id :: "(settings_error + string) \<Rightarrow> string \<Rightarrow> settings_error + string" where
  "validate_account_id sts_account value =
     (if value \<noteq> ''<changeme>'' then Inr value else sts_account)"

definition validate_s3_buckets ::
  "string \<Rightarrow> (string \<rightharpoonup> string) \<Rightarrow> string \<Rightarrow> settings_error + string" where
  "validate_s3_buckets value data field_name =
     (if value \<noteq> ''<changeme>'' then Inr value
      else case data_get data ''PROJECT_SLUG'' of
             Inl e \<Rightarrow> Inl e
           | Inr slug \<Rightarrow>
               (case data_get data ''AWS_RESOURCE_SUFFIX'' of
                  Inl e \<Rightarrow> Inl e
                | Inr suffix \<Rightarrow>
                    Inr (join ''-''
                      [slug, suffix,
                       replace (lower (replace field_name ''S3_BUCKET_'' '''')) ''_'' ''-''])))"

text \<open>
  \<open>info.field_name in {}\<close> tests membership in an empty dictionary, so \<open>.fifo\<close> is never
  appended; the empty list of FIFO queue fields stands for that dictionary.
\<close>

definition validate_sqs_queues ::
  "string \<Rightarrow> (string \<rightharpoonup> string) \<Rightarrow> string \<Rightarrow> settings_error + string" where
  "validate_sqs_queues value data field_name =
     (if value \<noteq> ''<changeme>'' then Inr value
      else case data_get data ''PROJECT_SLUG'' of
             Inl e \<Rightarrow> Inl e
           | Inr slug \<Rightarrow>
               (case data_get data ''AWS_RESOURCE_SUFFIX'' of
                  Inl e \<Rightarrow> Inl e
                | Inr suffix \<Rightarrow>
                    (let queue_name = join ''-''
                           [slug, suffix,
                            replace (lower (replace field_name ''SQS_QUEUE_'' '''')) ''_'' ''-'']
                     in Inr (if field_name \<in> set [] then queue_name @ ''.fifo'' else queue_name))))"

text \<open>
  \<open>Settings()\<close>: the fields are validated in the order of their declaration. A field that
  fails (a missing required field, an \<open>ENVIRONMENT\<close> outside the literal) is noted and is
  absent from \<open>info.data\<close> for the validators after it; the defaults are validated like
  supplied values. \<open>data\<close> is \<open>info.data\<close>, \<open>errs\<close> the fields that failed so far.
\<close>

definition Settings :: "(settings_error + string) \<Rightarrow> settings_input \<Rightarrow> settings_error + settings" where
  "Settings sts_account inp =
     (let slug = field_or ''salesforce-integration'' (in_PROJECT_SLUG inp);
          data1 = [''PROJECT_SLUG'' \<mapsto> slug];
          env_ok = (case in_ENVIRONMENT inp of None \<Rightarrow> False | Some v \<Rightarrow> v \<in> set ENVIRONMENTS);
          env = field_or '''' (in_ENVIRONMENT inp);
          data2 = (if env_ok then data1(''ENVIRONMENT'' \<mapsto> env) else data1);
          errs2 = (if env_ok then [] else [''ENVIRONMENT''])
      in case construct_aws_resource_suffix (field_or ''<changeme>'' (in_AWS_RESOURCE_SUFFIX inp)) data2 of
           Inl e \<Rightarrow> Inl e
         | Inr suffix \<Rightarrow>
      (let data3 = data2(''AWS_RESOURCE_SUFFIX'' \<mapsto> suffix)
       in case validate_account_id sts_account (field_or ''<changeme>'' (in_AWS_ACCOUNT_ID inp)) of
            Inl e \<Rightarrow> Inl e
          | Inr account \<Rightarrow>
      (let data4 = data3(''AWS_ACCOUNT_ID'' \<mapsto> account);
           region = field_or '''' (in_AWS_REGION inp);
           data5 = (if in_AWS_REGION inp = None then data4 else data4(''AWS_REGION'' \<mapsto> region));
           errs5 = (if in_AWS_REGION inp = None then errs2 @ [''AWS_REGION''] else errs2)
       in case validate_s3_buckets (field_or ''<changeme>'' (in_S3_BUCKET_STORAGE inp)) data5
                 ''S3_BUCKET_STORAGE'' of
            Inl e \<Rightarrow> Inl e
          | Inr bucket \<Rightarrow>
      (let data6 = data5(''S3_BUCKET_STORAGE'' \<mapsto> bucket)
       in case validate_sqs_queues (field_or ''<changeme>'' (in_SQS_QUEUE_MESSAGES inp)) data6
                 ''SQS_QUEUE_MESSAGES'' of
            Inl e \<Rightarrow> Inl e
          | Inr queue \<Rightarrow>
              (if errs5 \<noteq> [] then Inl (ValidationError errs5)
               else Inr \<lparr> PROJECT_SLUG = slug, ENVIRONMENT = env, AWS_RESOURCE_SUFFIX = suffix,
                          AWS_ACCOUNT_ID = account, AWS_REGION = region,
                          S3_BUCKET_STORAGE = bucket, SQS_QUEUE_MESSAGES = queue \<rparr>)))))"

subsection \<open>get\_env\_value and the SENTRY\_DSN property\<close>

text \<open>
  An \<open>.env\<close> file that does not exist is \<open>None\<close>. One that exists is the dictionary
  \<open>dotenv_values\<close> reads from it, where a key written without a value is bound to \<open>None\<close>.
\<close>

type_synonym env_file = "(string \<rightharpoonup> string option) option"

fun get_env_value_files :: "string \<Rightarrow> env_file list \<Rightarrow> string option" where
  "get_env_value_files key [] = None"
| "get_env_value_files key (env_file # env_files) =
     (case env_file of
        None \<Rightarrow> get_env_value_files key env_files
      | Some env_values \<Rightarrow>
          (case env_values key of
             Some v \<Rightarrow> v
           | None \<Rightarrow> get_env_value_files key env_files))"

definition get_env_value :: "(string \<rightharpoonup> string) \<Rightarrow> env_file list \<Rightarrow> string \<Rightarrow> string option" where
  "get_env_value environ env_files key =
     (case environ key of Some v \<Rightarrow> Some v | None \<Rightarrow> get_env_value_files key env_files)"

text \<open>
  The property reads the process environment and the \<open>.env\<close> files, may call
  \<open>get_secret\<close> (a secret is a dictionary from keys to strings or \<open>None\<close>; the call may
  raise), and builds an \<open>HttpUrl\<close>, which raises for a string that is not an HTTP URL:
  \<open>http_url s\<close> is the URL parsed from \<open>s\<close>, \<open>None\<close> when there is none. The result comes with
  the names of the secrets that were fetched.
\<close>

datatype dsn_error =
    SecretError string
  | DsnKeyError string
  | UrlError string

definition HttpUrl :: "(string \<Rightarrow> 'u option) \<Rightarrow> string \<Rightarrow> dsn_error + 'u option" where
  "HttpUrl http_url s = (case http_url s of None \<Rightarrow> Inl (UrlError s) | Some u \<Rightarrow> Inr (Some u))"

definition SENTRY_DSN ::
  "(string \<Rightarrow> 'u option) \<Rightarrow> (string \<Rightarrow> dsn_error + (string \<rightharpoonup> string option)) \<Rightarrow>
   (string \<rightharpoonup> string) \<Rightarrow> env_file list \<Rightarrow> settings \<Rightarrow> string list \<times> (dsn_error + 'u option)" where
  "SENTRY_DSN http_url get_secret environ env_files self =
     (case get_env_value environ env_files ''SENTRY_DSN'' of
        Some env_value \<Rightarrow>
          (if lower (strip '' '' env_value) \<in> set ['''', ''null'', ''none'']
           then ([], Inr None)
           else ([], HttpUrl http_url env_value))
      | None \<Rightarrow>
          (if ENVIRONMENT self = ''testing'' then ([], Inr None)
           else
             let secret_name = join ''-'' [PROJECT_SLUG self, ''shared-resources'', ''sentry-dsn'']
             in case get_secret secret_name of
                  Inl e \<Rightarrow> ([secret_name], Inl e)
                | Inr secret \<Rightarrow>
                    (case secret ''dsn'' of
                       None \<Rightarrow> ([secret_name], Inl (DsnKeyError ''dsn''))
                     | Some sentry_dsn \<Rightarrow>
                         (case sentry_dsn of
                            None \<Rightarrow> ([secret_name], Inr None)
                          | Some dsn \<Rightarrow>
                              (if lower (strip '' '' dsn) \<in> set ['''', ''null'', ''none'']
                               then ([secret_name], Inr None)
                               else ([secret_name], HttpUrl http_url dsn))))))"

section \<open>integration/models: TimeRange\<close>

text \<open>
  A \<open>datetime.datetime\<close> is naive or aware. It is kept as a number of microseconds: on the
  wall clock for a naive one, since the epoch in UTC for an aware one. Python orders two
  naive or two aware datetimes by these numbers and raises \<open>TypeError\<close> when asked to order
  a naive and an aware one.
\<close>

datatype datetime = Naive int | Aware int

datatype model_error =
    ValueError string
  | TypeError string
  | FieldError string

definition datetime_gt :: "datetime \<Rightarrow> datetime \<Rightarrow> model_error + bool" where
  "datetime_gt a b =
     (case (a, b) of
        (Naive x, Naive y) \<Rightarrow> Inr (x > y)
      | (Aware x, Aware y) \<Rightarrow> Inr (x > y)
      | _ \<Rightarrow> Inl (TypeError ''can't compare offset-naive and offset-aware datetimes''))"

definition datetime_le :: "datetime \<Rightarrow> datetime \<Rightarrow> model_error + bool" where
  "datetime_le a b =
     (case (a, b) of
        (Naive x, Naive y) \<Rightarrow> Inr (x \<le> y)
      | (Aware x, Aware y) \<Rightarrow> Inr (x \<le> y)
      | _ \<Rightarrow> Inl (TypeError ''can't compare offset-naive and offset-aware datetimes''))"









section \<open>handlers/do\_something.py: async\_handler\<close>

text \<open>
  The Lambda event is a dictionary; it is kept as a list of keys with the JSON text of
  their values.
\<close>

type_synonym Event = "(string \<times> string) list"

text \<open>
  An exception that is an \<open>Exception\<close> is a plain one, with its class and its message, or an
  \<open>ExceptionGroup\<close> with the exceptions it holds. An exception that is not an \<open>Exception\<close>
  (\<open>CancelledError\<close>, \<open>KeyboardInterrupt\<close>) is known by its name only.
\<close>

datatype exn = Exception string string | ExceptionGroup string "exn list"

text \<open>
  The class \<open>KicksawIntegrationAppExecution\<close> is not among the sources. An object of it is
  the record of the attributes the handler reads and writes; \<open>logger_records\<close> are the lines
  logged through \<open>execution.logger\<close>, with their level.
\<close>

record execution =
  integration_name :: string
  execution_payload :: Event
  integration_id :: "string option"
  execution_id :: "string option"
  error_message :: "string option"
  success :: "bool option"
  response_payload :: "(string \<times> bool) list option"
  logger_records :: "(string \<times> string) list"

datatype annotation = AnnotateStr "string option" | AnnotateBool "bool option"

text \<open>
  What the handler does besides changing the execution: warnings of the module logger,
  the task created for \<open>execution.create_all()\<close> (with the execution as it is at that
  moment), the \<open>await\<close> of that task under \<open>asyncio.shield\<close>, and the annotations of the X-Ray
  subsegment.
\<close>

datatype handler_event =
    LoggerWarning string
  | CreateTask_create_all execution
  | AwaitShield
  | PutAnnotation string annotation

text \<open>
  How a block ends: normally, with an \<open>Exception\<close>, or with an exception that is not an
  \<open>Exception\<close>.
\<close>

datatype completion = Normal | Raises exn | RaisesBaseException string

text \<open>
  \<open>except* Exception as eg\<close> binds an exception group: the group that was raised, or a new
  group around a plain exception. \<open>eg.exceptions\<close> are the exceptions the group holds.
\<close>

definition as_exception_group :: "exn \<Rightarrow> exn" where
  "as_exception_group e = (case e of ExceptionGroup _ _ \<Rightarrow> e | Exception _ _ \<Rightarrow> ExceptionGroup '''' [e])"

definition exceptions :: "exn \<Rightarrow> exn list" where
  "exceptions eg = (case eg of ExceptionGroup _ es \<Rightarrow> es | Exception _ _ \<Rightarrow> [])"

text \<open>
  The \<open>try\<close> statement without its \<open>finally\<close> clause, lines 35 to 69. \<open>body\<close> is how the
  \<open>with xray_recorder.in_subsegment\<close> block (the logging of the event) ends, and
  \<open>format_exception_only\<close> is the function of that name of the module \<open>traceback\<close>. The result
  is the events, the execution and the way the statement ends.
\<close>

definition try_except ::
  "(exn \<Rightarrow> string list) \<Rightarrow> completion \<Rightarrow> execution \<Rightarrow> handler_event list \<times> execution \<times> completion" where
  "try_except format_exception_only body execution =
     (let execution_soft_errors = ([] :: string list)
      in case body of
           Normal \<Rightarrow>
             (if length execution_soft_errors > 0
              then ([LoggerWarning (''Encountered '' @ decimal (length execution_soft_errors) @
                                     '' soft errors'')],
                    execution
                      \<lparr> logger_records := logger_records execution @
                           map (\<lambda>error. (''WARNING'', error)) execution_soft_errors,
                        error_message := Some (''Encountered '' @
                           format_comma_d (length execution_soft_errors) @
                           '' errors, see execution logs for details''),
                        success := Some False \<rparr>,
                    Normal)
              else ([],
                    execution \<lparr> response_payload := Some [(''success'', True)], success := Some True \<rparr>,
                    Normal))
         | Raises e \<Rightarrow>
             (let eg = as_exception_group e
              in case exceptions eg of
                   [x] \<Rightarrow>
                     ([],
                      execution \<lparr> error_message := Some (join [CHR 0x0A] (format_exception_only x)) \<rparr>,
                      Raises eg)
                 | xs \<Rightarrow>
                     ([],
                      execution
                        \<lparr> logger_records := logger_records execution @
                             map (\<lambda>exception. (''ERROR'', join [CHR 0x0A] (format_exception_only exception)))
                               xs,
                          error_message := Some (''Execution failed with '' @ format_comma_d (length xs) @
                             '' errors, see ERROR logs for details'') \<rparr>,
                      Raises eg))
         | RaisesBaseException b \<Rightarrow> ([], execution, RaisesBaseException b))"

text \<open>
  The \<open>finally\<close> clause, lines 71 to 83. \<open>create_all\<close> is the method of the execution: it
  returns the execution as the write leaves it, or raises. The annotations are put after
  the awaited task has returned.
\<close>

definition finally_clause ::
  "(execution \<Rightarrow> exn + execution) \<Rightarrow> execution \<Rightarrow> handler_event list \<times> exn option" where
  "finally_clause create_all execution =
     (case create_all execution of
        Inl e \<Rightarrow> ([CreateTask_create_all execution, AwaitShield], Some e)
      | Inr written \<Rightarrow>
          ([CreateTask_create_all execution, AwaitShield,
            PutAnnotation ''integration_name'' (AnnotateStr (Some (integration_name written))),
            PutAnnotation ''integration_id'' (AnnotateStr (integration_id written)),
            PutAnnotation ''execution_id'' (AnnotateStr (execution_id written)),
            PutAnnotation ''success'' (AnnotateBool (success written))],
           None))"

text \<open>
  \<open>async_handler\<close>. \<open>new_execution name payload\<close> stands for the statements before the \<open>try\<close>:
  entering the HTTP client, building the Salesforce client and constructing the execution
  with that integration name and payload; it raises when one of them does. An exception
  raised in the \<open>finally\<close> clause replaces the one the \<open>try\<close> statement was ending with.
\<close>

definition async_handler ::
  "(string \<Rightarrow> Event \<Rightarrow> exn + execution) \<Rightarrow> (Event \<Rightarrow> completion) \<Rightarrow> (exn \<Rightarrow> string list) \<Rightarrow>
   (execution \<Rightarrow> exn + execution) \<Rightarrow> settings \<Rightarrow> Event \<Rightarrow> handler_event list \<times> completion" where
  "async_handler new_execution body format_exception_only create_all settings event =
     (case new_execution (PROJECT_SLUG settings @ '' '' @ ENVIRONMENT settings @ '' Do something'') event of
        Inl e \<Rightarrow> ([], Raises e)
      | Inr execution \<Rightarrow>
          (let (evs1, execution1, r1) = try_except format_exception_only (body event) execution;
               (evs2, r2) = finally_clause create_all execution1
           in (evs1 @ evs2, case r2 of Some e \<Rightarrow> Raises e | None \<Rightarrow> r1)))"

text \<open>The tasks a trace created for \<open>create_all\<close>, by the execution they write.\<close>

definition create_all_tasks :: "handler_event list \<Rightarrow> execution list" where
  "create_all_tasks evs = concat (map (\<lambda>e. case e of CreateTask_create_all x \<Rightarrow> [x] | _ \<Rightarrow> []) evs)"

section \<open>Concrete inputs\<close>

text \<open>Inputs at which the theorems below are instantiated.\<close>

text \<open>
  A queue library that accepts a visibility timeout of at most 12 hours and a maximum
  receive count of at least one.
\<close>

definition queue_limits :: "queue_props \<Rightarrow> string option" where
  "queue_limits props =
     (if (case visibility_timeout props of Duration n \<Rightarrow> 43200 < n)
      then Some ''visibility timeout must be between 0 and 43200 seconds''
      else if (case dead_letter_queue props of None \<Rightarrow> False | Some d \<Rightarrow> max_receive_count d < 1)
      then Some ''dead letter target maximum receive count must be 1 or more''
      else None)"

definition entity_already_exists :: client_error where
  "entity_already_exists =
     \<lparr> error_code = ''EntityAlreadyExists'', error_text = ''An error occurred (EntityAlreadyExists)'' \<rparr>"

definition access_denied :: client_error where
  "access_denied = \<lparr> error_code = ''AccessDenied'', error_text = ''An error occurred (AccessDenied)'' \<rparr>"

text \<open>
  An account in which the role and the policy exist already and every other call returns.
\<close>

definition aws_already_provisioned :: aws where
  "aws_already_provisioned =
     \<lparr> sts_get_caller_identity = Returned ''123456789012'',
       iam_create_role = ClientError entity_already_exists,
       iam_role_exists_waiter = Returned (),
       iam_create_policy = ClientError entity_already_exists,
       iam_get_policy = (\<lambda>k arn. Returned arn),
       iam_attach_role_policy = Returned (),
       iam_list_attached_role_policies = Returned [POLICY_NAME] \<rparr>"

text \<open>The same account when the caller may not read the existing policy.\<close>

definition aws_lookup_denied :: aws where
  "aws_lookup_denied = aws_already_provisioned \<lparr> iam_get_policy := (\<lambda>k arn. ClientError access_denied) \<rparr>"






text \<open>
  A staging deployment that supplies only the two required fields, and one that names its
  own resource suffix and storage bucket.
\<close>

definition staging_defaults :: settings_input where
  "staging_defaults =
     \<lparr> in_PROJECT_SLUG = None, in_ENVIRONMENT = Some ''staging'', in_AWS_RESOURCE_SUFFIX = None,
       in_AWS_ACCOUNT_ID = None, in_AWS_REGION = Some ''us-west-2'',
       in_S3_BUCKET_STORAGE = None, in_SQS_QUEUE_MESSAGES = None \<rparr>"

definition staging_explicit :: settings_input where
  "staging_explicit =
     staging_defaults \<lparr> in_AWS_RESOURCE_SUFFIX := Some ''blue'', in_S3_BUCKET_STORAGE := Some ''my-bucket'' \<rparr>"

text \<open>
  Settings of a production and of a testing deployment, a URL parser that accepts the
  strings starting with \<open>https://\<close>, and a secret store that knows the Sentry secret.
\<close>

definition production_settings :: settings where
  "production_settings =
     \<lparr> PROJECT_SLUG = ''salesforce-integration'', ENVIRONMENT = ''production'',
       AWS_RESOURCE_SUFFIX = ''production'', AWS_ACCOUNT_ID = ''123456789012'',
       AWS_REGION = ''us-west-2'',
       S3_BUCKET_STORAGE = ''salesforce-integration-production-storage'',
       SQS_QUEUE_MESSAGES = ''salesforce-integration-production-messages'' \<rparr>"

definition testing_settings :: settings where
  "testing_settings = production_settings \<lparr> ENVIRONMENT := ''testing'' \<rparr>"

definition https_url :: "string \<Rightarrow> string option" where
  "https_url s = (if take 8 s = ''https://'' then Some s else None)"

definition sentry_secrets :: "string \<Rightarrow> dsn_error + (string \<rightharpoonup> string option)" where
  "sentry_secrets name =
     (if name = ''salesforce-integration-shared-resources-sentry-dsn''
      then Inr [''dsn'' \<mapsto> Some ''https://key@sentry.example/1'']
      else Inl (SecretError name))"

text \<open>A secret store in which the \<open>dsn\<close> of every secret is the JSON \<open>null\<close>.\<close>

definition null_secrets :: "string \<Rightarrow> dsn_error + (string \<rightharpoonup> string option)" where
  "null_secrets name = Inr [''dsn'' \<mapsto> None]"


text \<open>
  A fresh execution, a \<open>format_exception_only\<close> for plain exceptions, and a \<open>create_all\<close>
  that stores the record under fixed ids.
\<close>

definition fresh_execution :: "string \<Rightarrow> Event \<Rightarrow> exn + execution" where
  "fresh_execution name payload =
     Inr \<lparr> integration_name = name, execution_payload = payload, integration_id = None,
           execution_id = None, error_message = None, success = None, response_payload = None,
           logger_records = [] \<rparr>"

definition format_plain :: "exn \<Rightarrow> string list" where
  "format_plain e =
     (case e of
        Exception cls msg \<Rightarrow> [cls @ '': '' @ msg @ [CHR 0x0A]]
      | ExceptionGroup msg es \<Rightarrow> [''ExceptionGroup: '' @ msg @ [CHR 0x0A]])"

definition create_all_ok :: "execution \<Rightarrow> exn + execution" where
  "create_all_ok x = Inr (x \<lparr> integration_id := Some ''a01'', execution_id := Some ''a02'' \<rparr>)"

definition create_all_fails :: "execution \<Rightarrow> exn + execution" where
  "create_all_fails x = Inl (Exception ''SalesforceError'' ''insert failed'')"

text \<open>Two failures of the handler's body, and the event used with them.\<close>

definition value_error :: exn where
  "value_error = Exception ''ValueError'' ''bad input''"


definition sample_event :: Event where
  "sample_event = [(''id'', ''1'')]"

definition sample_execution :: execution where
  "sample_execution =
     \<lparr> integration_name = ''salesforce-integration production Do something'',
       execution_payload = sample_event, integration_id = None, execution_id = None,
       error_message = None, success = None, response_payload = None, logger_records = [] \<rparr>"

section \<open>Properties\<close>

subsection \<open>QueueWithDLQ\<close>

lemma Queue_Inr:
  "Queue queue_error ident name vis_timeout fifo_fifo fifo_dedup dlq = Inr q \<longleftrightarrow>
     0 \<le> vis_timeout \<and>
     q = \<lparr> construct_id = ident, queue_name = name, retention_period = Duration 1209600,
           visibility_timeout = Duration vis_timeout, fifo = fifo_fifo,
           content_based_deduplication = fifo_dedup, dead_letter_queue = dlq \<rparr> \<and>
     queue_error q = None"
  by (auto simp: Queue_def duration_days_def duration_seconds_def Let_def split: option.splits)

text \<open>
  Claim C5. Every \<open>QueueWithDLQ\<close> that is constructed has a name that does not end in
  \<open>.fifo\<close>, and its primary queue has the given visibility timeout and a retention period
  of 14 days. With \<open>create_dlq\<close> it has a dead-letter queue named \<open>name-dlq\<close> (\<open>name-dlq.fifo\<close>
  for a FIFO queue), the primary queue refers to that queue with the given
  \<open>max_receive_count\<close>, and the two queues have the same visibility timeout and retention
  period. Without \<open>create_dlq\<close> there is no dead-letter queue, neither on the construct nor
  on the primary queue. A name that ends in \<open>.fifo\<close> fails the assertion; with another name
  a negative visibility timeout fails in \<open>Duration\<close>; and with another name, a visibility
  timeout that is not negative and a library that refuses no queue, the construct is built.
\<close>

theorem QueueWithDLQ_dead_letter_queue:
  "(\<forall>c. QueueWithDLQ queue_error ident name create_dlq max_receive is_fifo content_dedup vis_timeout = Inr c \<longrightarrow>
      \<not> endswith name ''.fifo'' \<and> 0 \<le> vis_timeout \<and>
      retention_period (qd_queue c) = Duration (14 * 86400) \<and>
      visibility_timeout (qd_queue c) = Duration vis_timeout \<and>
      (create_dlq \<longrightarrow>
         (\<exists>d. qd_dead_letter_queue c = Some d \<and>
            queue_name d = (if is_fifo then name @ ''-dlq.fifo'' else name @ ''-dlq'') \<and>
            dead_letter_queue (qd_queue c) =
              Some \<lparr> max_receive_count = max_receive, dlq_queue = queue_name d \<rparr> \<and>
            visibility_timeout d = visibility_timeout (qd_queue c) \<and>
            retention_period d = Duration (14 * 86400))) \<and>
      (\<not> create_dlq \<longrightarrow>
         qd_dead_letter_queue c = None \<and> dead_letter_queue (qd_queue c) = None)) \<and>
   (endswith name ''.fifo'' \<longrightarrow>
      (\<exists>msg. QueueWithDLQ queue_error ident name create_dlq max_receive is_fifo content_dedup vis_timeout =
         Inl (AssertionError msg))) \<and>
   (\<not> endswith name ''.fifo'' \<and> vis_timeout < 0 \<longrightarrow>
      (\<exists>msg. QueueWithDLQ queue_error ident name create_dlq max_receive is_fifo content_dedup vis_timeout =
         Inl (DurationError msg))) \<and>
   (\<not> endswith name ''.fifo'' \<and> 0 \<le> vis_timeout \<and> (\<forall>props. queue_error props = None) \<longrightarrow>
      (\<exists>c. QueueWithDLQ queue_error ident name create_dlq max_receive is_fifo content_dedup vis_timeout =
         Inr c))"
proof (intro conjI allI impI)
  fix c
  assume built: "QueueWithDLQ queue_error ident name create_dlq max_receive is_fifo content_dedup vis_timeout = Inr c"
  then have name: "\<not> endswith name ''.fifo''"
    by (auto simp: QueueWithDLQ_def split: if_splits)
  from built name obtain dlq q where
    dlq: "(if create_dlq
           then (case Queue queue_error (ident @ '' DLQ'')
                        (if is_fifo then name @ ''-dlq.fifo'' else name @ ''-dlq'')
                        vis_timeout (if is_fifo then Some True else None)
                        (if is_fifo then Some content_dedup else None) None of
                   Inl e \<Rightarrow> Inl e | Inr d \<Rightarrow> Inr (Some d))
           else Inr None) = Inr dlq"
    and q: "Queue queue_error ident (if is_fifo then name @ ''.fifo'' else name) vis_timeout
              (if is_fifo then Some True else None) (if is_fifo then Some content_dedup else None)
              (case dlq of
                 Some d \<Rightarrow> Some \<lparr> max_receive_count = max_receive, dlq_queue = queue_name d \<rparr>
               | None \<Rightarrow> None) = Inr q"
    and c: "c = \<lparr> qd_dead_letter_queue = dlq, qd_queue = q \<rparr>"
    by (auto simp: QueueWithDLQ_def Let_def split: sum.splits)
  note qf = q [unfolded Queue_Inr]
  show "\<not> endswith name ''.fifo''" by (rule name)
  show "0 \<le> vis_timeout" using qf by simp
  show "retention_period (qd_queue c) = Duration (14 * 86400)" using qf c by simp
  show "visibility_timeout (qd_queue c) = Duration vis_timeout" using qf c by simp
  show "\<exists>d. qd_dead_letter_queue c = Some d \<and>
            queue_name d = (if is_fifo then name @ ''-dlq.fifo'' else name @ ''-dlq'') \<and>
            dead_letter_queue (qd_queue c) =
              Some \<lparr> max_receive_count = max_receive, dlq_queue = queue_name d \<rparr> \<and>
            visibility_timeout d = visibility_timeout (qd_queue c) \<and>
            retention_period d = Duration (14 * 86400)"
    if "create_dlq"
  proof -
    from dlq that obtain d where d: "dlq = Some d"
      and dq: "Queue queue_error (ident @ '' DLQ'')
                 (if is_fifo then name @ ''-dlq.fifo'' else name @ ''-dlq'')
                 vis_timeout (if is_fifo then Some True else None)
                 (if is_fifo then Some content_dedup else None) None = Inr d"
      by (auto split: sum.splits)
    note df = dq [unfolded Queue_Inr]
    from df qf c d show ?thesis by simp
  qed
  show "qd_dead_letter_queue c = None" if "\<not> create_dlq"
    using dlq that c by simp
  show "dead_letter_queue (qd_queue c) = None" if "\<not> create_dlq"
    using dlq that c qf by auto
next
  assume "endswith name ''.fifo''"
  then show "\<exists>msg. QueueWithDLQ queue_error ident name create_dlq max_receive is_fifo content_dedup vis_timeout =
         Inl (AssertionError msg)"
    by (simp add: QueueWithDLQ_def)
next
  assume "\<not> endswith name ''.fifo'' \<and> vis_timeout < 0"
  then show "\<exists>msg. QueueWithDLQ queue_error ident name create_dlq max_receive is_fifo content_dedup vis_timeout =
         Inl (DurationError msg)"
    by (simp add: QueueWithDLQ_def Queue_def duration_days_def duration_seconds_def Let_def)
next
  assume "\<not> endswith name ''.fifo'' \<and> 0 \<le> vis_timeout \<and> (\<forall>props. queue_error props = None)"
  then show "\<exists>c. QueueWithDLQ queue_error ident name create_dlq max_receive is_fifo content_dedup vis_timeout =
         Inr c"
    by (simp add: QueueWithDLQ_def Queue_def duration_days_def duration_seconds_def Let_def)
qed

theorem QueueWithDLQ_dead_letter_queue_witness:
  "(\<exists>c d. QueueWithDLQ queue_limits ''Messages'' ''app-production-messages'' True 3 False False 900 = Inr c \<and>
      qd_dead_letter_queue c = Some d \<and>
      queue_name d = ''app-production-messages-dlq'' \<and>
      dead_letter_queue (qd_queue c) =
        Some \<lparr> max_receive_count = 3, dlq_queue = ''app-production-messages-dlq'' \<rparr> \<and>
      visibility_timeout d = Duration 900 \<and>
      visibility_timeout (qd_queue c) = Duration 900 \<and>
      retention_period d = Duration 1209600 \<and>
      retention_period (qd_queue c) = Duration 1209600) \<and>
   (\<exists>c. QueueWithDLQ queue_limits ''Messages'' ''app-production-messages'' False 3 True False 900 = Inr c \<and>
      qd_dead_letter_queue c = None \<and> dead_letter_queue (qd_queue c) = None) \<and>
   (\<exists>msg. QueueWithDLQ queue_limits ''Messages'' ''messages.fifo'' True 3 True False 900 =
      Inl (AssertionError msg)) \<and>
   (\<exists>msg. QueueWithDLQ queue_limits ''Messages'' ''app-production-messages'' True 3 False False (- 1) =
      Inl (DurationError msg)) \<and>
   (\<exists>c. QueueWithDLQ (\<lambda>props. None) ''Messages'' ''app-production-messages'' True 3 False False 0 = Inr c)"
proof -
  let ?name = "''app-production-messages''"
  have a: "\<not> endswith ?name ''.fifo''"
    by (simp add: endswith_def)
  have b: "endswith ''messages.fifo'' ''.fifo''"
    by (simp add: endswith_def)
  obtain c1 where c1: "QueueWithDLQ queue_limits ''Messages'' ?name True 3 False False 900 = Inr c1"
    by (simp add: QueueWithDLQ_def Queue_def duration_days_def duration_seconds_def Let_def a
          queue_limits_def)
  obtain c2 where c2: "QueueWithDLQ queue_limits ''Messages'' ?name False 3 True False 900 = Inr c2"
    by (simp add: QueueWithDLQ_def Queue_def duration_days_def duration_seconds_def Let_def a
          queue_limits_def)
  from QueueWithDLQ_dead_letter_queue [of queue_limits "''Messages''" ?name True 3 False False 900] c1
  obtain d where p1: "qd_dead_letter_queue c1 = Some d"
      "queue_name d = ''app-production-messages-dlq''"
      "dead_letter_queue (qd_queue c1) = Some \<lparr> max_receive_count = 3, dlq_queue = queue_name d \<rparr>"
      "visibility_timeout d = visibility_timeout (qd_queue c1)"
      "retention_period d = Duration (14 * 86400)"
      "retention_period (qd_queue c1) = Duration (14 * 86400)"
      "visibility_timeout (qd_queue c1) = Duration 900"
    by auto
  from QueueWithDLQ_dead_letter_queue [of queue_limits "''Messages''" ?name False 3 True False 900] c2
  have p2: "qd_dead_letter_queue c2 = None \<and> dead_letter_queue (qd_queue c2) = None"
    by blast
  from QueueWithDLQ_dead_letter_queue [of queue_limits "''Messages''" "''messages.fifo''" True 3 True False 900] b
  have p3: "\<exists>msg. QueueWithDLQ queue_limits ''Messages'' ''messages.fifo'' True 3 True False 900 =
      Inl (AssertionError msg)"
    by blast
  from QueueWithDLQ_dead_letter_queue [of queue_limits "''Messages''" ?name True 3 False False "- 1"] a
  have p4: "\<exists>msg. QueueWithDLQ queue_limits ''Messages'' ?name True 3 False False (- 1) =
      Inl (DurationError msg)"
    by simp
  from QueueWithDLQ_dead_letter_queue [of "\<lambda>props. None" "''Messages''" ?name True 3 False False 0] a
  have p5: "\<exists>c. QueueWithDLQ (\<lambda>props. None) ''Messages'' ?name True 3 False False 0 = Inr c"
    by simp
  from c1 p1 have q1: "\<exists>c d. QueueWithDLQ queue_limits ''Messages'' ?name True 3 False False 900 = Inr c \<and>
      qd_dead_letter_queue c = Some d \<and>
      queue_name d = ''app-production-messages-dlq'' \<and>
      dead_letter_queue (qd_queue c) =
        Some \<lparr> max_receive_count = 3, dlq_queue = ''app-production-messages-dlq'' \<rparr> \<and>
      visibility_timeout d = Duration 900 \<and>
      visibility_timeout (qd_queue c) = Duration 900 \<and>
      retention_period d = Duration 1209600 \<and>
      retention_period (qd_queue c) = Duration 1209600"
    by simp
  from c2 p2 have q2: "\<exists>c. QueueWithDLQ queue_limits ''Messages'' ?name False 3 True False 900 = Inr c \<and>
      qd_dead_letter_queue c = None \<and> dead_letter_queue (qd_queue c) = None"
    by blast
  from q1 q2 p3 p4 p5 show ?thesis by blast
qed

subsection \<open>wait\_for\_policy\<close>

lemma wait_for_policy_loop_exhausted:
  "(\<And>j. j < n \<Longrightarrow> no_such_entity (gp (k + j) arn)) \<Longrightarrow>
   wait_for_policy_loop gp arn d k n = (concat (replicate n [GetPolicy arn, Sleep d]), Return False)"
proof (induction n arbitrary: k)
  case 0
  show ?case by simp
next
  case (Suc n)
  have first: "no_such_entity (gp k arn)"
    using Suc.prems [of 0] by simp
  have rest: "\<And>j. j < n \<Longrightarrow> no_such_entity (gp (Suc k + j) arn)"
    using Suc.prems [of "Suc _"] by simp
  from first show ?case
    by (auto simp: no_such_entity_def Suc.IH [OF rest] split: api_result.splits)
qed

lemma wait_for_policy_loop_decided:
  "j < n \<Longrightarrow> (\<And>i. i < j \<Longrightarrow> no_such_entity (gp (k + i) arn)) \<Longrightarrow>
   \<not> no_such_entity (gp (k + j) arn) \<Longrightarrow>
   wait_for_policy_loop gp arn d k n =
     (concat (replicate j [GetPolicy arn, Sleep d]) @ [GetPolicy arn],
      case gp (k + j) arn of
        Returned _ \<Rightarrow> Return True
      | ClientError e \<Rightarrow> Raise_ClientError e
      | OtherError x \<Rightarrow> Raise_Other x)"
proof (induction n arbitrary: k j)
  case 0
  then show ?case by simp
next
  case (Suc n)
  show ?case
  proof (cases j)
    case 0
    with Suc.prems(3) show ?thesis
      by (auto simp: no_such_entity_def split: api_result.splits)
  next
    case (Suc j')
    have first: "no_such_entity (gp k arn)"
      using Suc.prems(2) [of 0] Suc by simp
    have lt: "j' < n" using Suc.prems(1) Suc by simp
    have rest: "\<And>i. i < j' \<Longrightarrow> no_such_entity (gp (Suc k + i) arn)"
      using Suc.prems(2) [of "Suc _"] Suc by simp
    have stop: "\<not> no_such_entity (gp (Suc k + j') arn)"
      using Suc.prems(3) Suc by simp
    from first show ?thesis
      by (auto simp: no_such_entity_def Suc Suc.IH [OF lt rest stop] split: api_result.splits)
  qed
qed

lemma get_policy_calls_polls [simp]:
  "get_policy_calls (concat (replicate j [GetPolicy arn, Sleep d]) @ evs) = j + get_policy_calls evs"
  by (induction j) (simp_all add: get_policy_calls_def)

lemma sleeps_polls [simp]:
  "sleeps (concat (replicate j [GetPolicy arn, Sleep d]) @ evs) = replicate j d @ sleeps evs"
  by (induction j) (simp_all add: sleeps_def)

text \<open>
  Claim C6. \<open>wait_for_policy\<close> calls \<open>get_policy\<close> at most \<open>max_attempts\<close> times and every
  sleep lasts \<open>delay\<close> seconds. When all \<open>max_attempts\<close> calls fail with \<open>NoSuchEntity\<close> it
  returns \<open>False\<close>, having slept after each of them. Otherwise, at the first call \<open>j\<close> that
  does not fail with \<open>NoSuchEntity\<close>, it has slept once after each of the \<open>j\<close> earlier calls
  and stops there: it returns \<open>True\<close> when the call returned, and raises the call's error
  when the call raised.
\<close>

theorem wait_for_policy_polls:
  assumes run: "wait_for_policy get_policy k0 policy_arn max_attempts delay = (evs, r)"
  shows "get_policy_calls evs \<le> nat max_attempts \<and>
         (\<forall>d \<in> set (sleeps evs). d = delay) \<and>
         ((\<forall>j < nat max_attempts. no_such_entity (get_policy (k0 + j) policy_arn)) \<longrightarrow>
            r = Return False \<and>
            evs = concat (replicate (nat max_attempts) [GetPolicy policy_arn, Sleep delay])) \<and>
         (\<forall>j < nat max_attempts.
            (\<forall>i < j. no_such_entity (get_policy (k0 + i) policy_arn)) \<and>
            \<not> no_such_entity (get_policy (k0 + j) policy_arn) \<longrightarrow>
            evs = concat (replicate j [GetPolicy policy_arn, Sleep delay]) @ [GetPolicy policy_arn] \<and>
            r = (case get_policy (k0 + j) policy_arn of
                   Returned _ \<Rightarrow> Return True
                 | ClientError e \<Rightarrow> Raise_ClientError e
                 | OtherError x \<Rightarrow> Raise_Other x))"
proof -
  let ?n = "nat max_attempts"
  let ?nse = "\<lambda>j. no_such_entity (get_policy (k0 + j) policy_arn)"
  from run have loop: "wait_for_policy_loop get_policy policy_arn delay k0 ?n = (evs, r)"
    by (simp add: wait_for_policy_def)
  have exhausted: "r = Return False \<and> evs = concat (replicate ?n [GetPolicy policy_arn, Sleep delay])"
    if "\<forall>j < ?n. ?nse j"
    using wait_for_policy_loop_exhausted [of ?n get_policy k0 policy_arn delay] that loop by simp
  have decided:
    "evs = concat (replicate j [GetPolicy policy_arn, Sleep delay]) @ [GetPolicy policy_arn] \<and>
     r = (case get_policy (k0 + j) policy_arn of
            Returned _ \<Rightarrow> Return True
          | ClientError e \<Rightarrow> Raise_ClientError e
          | OtherError x \<Rightarrow> Raise_Other x)"
    if "j < ?n" "\<forall>i < j. ?nse i" "\<not> ?nse j" for j
    using wait_for_policy_loop_decided [of j ?n get_policy k0 policy_arn delay] that loop by simp
  have shape: "get_policy_calls evs \<le> ?n \<and> (\<forall>d \<in> set (sleeps evs). d = delay)"
  proof (cases "\<forall>j < ?n. ?nse j")
    case True
    from exhausted [OF True] have "evs = concat (replicate ?n [GetPolicy policy_arn, Sleep delay]) @ []"
      by simp
    then have "get_policy_calls evs = ?n + get_policy_calls []" "sleeps evs = replicate ?n delay @ sleeps []"
      by (simp_all only: get_policy_calls_polls sleeps_polls)
    then show ?thesis by (simp add: get_policy_calls_def sleeps_def)
  next
    case False
    then have ex: "\<exists>j. j < ?n \<and> \<not> ?nse j" by blast
    define j where "j = (LEAST j. j < ?n \<and> \<not> ?nse j)"
    have j: "j < ?n \<and> \<not> ?nse j"
      unfolding j_def using ex by (rule LeastI_ex)
    have before: "\<forall>i < j. ?nse i"
    proof (intro allI impI)
      fix i assume "i < j"
      then have "\<not> (i < ?n \<and> \<not> ?nse i)"
        unfolding j_def by (rule not_less_Least)
      with \<open>i < j\<close> j show "?nse i" by simp
    qed
    from decided [of j] j before
    have "evs = concat (replicate j [GetPolicy policy_arn, Sleep delay]) @ [GetPolicy policy_arn]"
      by simp
    then have "get_policy_calls evs = j + get_policy_calls [GetPolicy policy_arn]"
      "sleeps evs = replicate j delay @ sleeps [GetPolicy policy_arn]"
      by (simp_all only: get_policy_calls_polls sleeps_polls)
    with j show ?thesis by (simp add: get_policy_calls_def sleeps_def)
  qed
  from shape exhausted decided show ?thesis by blast
qed

theorem wait_for_policy_polls_witness:
  "wait_for_policy
     (\<lambda>k a. if k < 2 then ClientError \<lparr> error_code = ''NoSuchEntity'', error_text = '''' \<rparr> else Returned a)
     0 ''arn:p'' 10 2 =
     ([GetPolicy ''arn:p'', Sleep 2, GetPolicy ''arn:p'', Sleep 2, GetPolicy ''arn:p''], Return True) \<and>
   get_policy_calls [GetPolicy ''arn:p'', Sleep 2, GetPolicy ''arn:p'', Sleep 2, GetPolicy ''arn:p''] \<le> nat 10 \<and>
   wait_for_policy
     (\<lambda>k a. ClientError \<lparr> error_code = ''NoSuchEntity'', error_text = '''' \<rparr>)
     0 ''arn:p'' 3 2 =
     (concat (replicate (nat 3) [GetPolicy ''arn:p'', Sleep 2]), Return False) \<and>
   wait_for_policy
     (\<lambda>k a. if k < 1 then ClientError \<lparr> error_code = ''NoSuchEntity'', error_text = '''' \<rparr>
             else ClientError \<lparr> error_code = ''AccessDenied'', error_text = '''' \<rparr>)
     0 ''arn:p'' 3 2 =
     (concat (replicate 1 [GetPolicy ''arn:p'', Sleep 2]) @ [GetPolicy ''arn:p''],
      Raise_ClientError \<lparr> error_code = ''AccessDenied'', error_text = '''' \<rparr>)"
proof -
  let ?nse = "\<lparr> error_code = ''NoSuchEntity'', error_text = '''' \<rparr>"
  let ?den = "\<lparr> error_code = ''AccessDenied'', error_text = '''' \<rparr>"
  let ?g1 = "\<lambda>k a. if k < (2::nat) then ClientError ?nse else Returned (a::string)"
  let ?g2 = "\<lambda>(k::nat) (a::string). (ClientError ?nse :: string api_result)"
  let ?g3 = "\<lambda>k (a::string). if k < (1::nat) then ClientError ?nse else (ClientError ?den :: string api_result)"
  let ?e1 = "[GetPolicy ''arn:p'', Sleep 2, GetPolicy ''arn:p'', Sleep 2, GetPolicy ''arn:p'']"
  have r1: "wait_for_policy ?g1 0 ''arn:p'' 10 2 = (?e1, Return True)"
    by (simp add: wait_for_policy_def eval_nat_numeral)
  obtain e2 r2 where r2: "wait_for_policy ?g2 0 ''arn:p'' 3 2 = (e2, r2)"
    by (cases "wait_for_policy ?g2 0 ''arn:p'' 3 2") blast
  obtain e3 r3 where r3: "wait_for_policy ?g3 0 ''arn:p'' 3 2 = (e3, r3)"
    by (cases "wait_for_policy ?g3 0 ''arn:p'' 3 2") blast
  have c1: "get_policy_calls ?e1 \<le> nat 10"
    using wait_for_policy_polls [OF r1] by blast
  have c2: "r2 = Return False \<and> e2 = concat (replicate (nat 3) [GetPolicy ''arn:p'', Sleep 2])"
    using wait_for_policy_polls [OF r2] by (simp add: no_such_entity_def)
  have "(1::nat) < nat 3 \<and> (\<forall>i < (1::nat). no_such_entity (?g3 (0 + i) ''arn:p'')) \<and>
        \<not> no_such_entity (?g3 (0 + 1) ''arn:p'')"
    by (simp add: no_such_entity_def)
  with wait_for_policy_polls [OF r3]
  have c3: "e3 = concat (replicate 1 [GetPolicy ''arn:p'', Sleep 2]) @ [GetPolicy ''arn:p''] \<and>
            r3 = Raise_ClientError ?den"
    by fastforce
  from r1 c1 r2 c2 r3 c3 show ?thesis by simp
qed

subsection \<open>main of the OIDC provisioning script\<close>

lemma attach_calls_append [simp]: "attach_calls (xs @ ys) = attach_calls xs @ attach_calls ys"
  by (simp add: attach_calls_def)

lemma attach_calls_Cons:
  "attach_calls (x # xs) = (case x of AttachRolePolicy r p \<Rightarrow> [(r, p)] | _ \<Rightarrow> []) @ attach_calls xs"
  by (simp add: attach_calls_def)

lemma attach_calls_Nil [simp]: "attach_calls [] = []"
  by (simp add: attach_calls_def)

lemma create_role_stage_no_attach: "attach_calls (fst (create_role_stage w)) = []"
  by (auto simp: create_role_stage_def wait_for_role_def role_handler_def attach_calls_Cons Let_def
           split: api_result.splits outcome.splits prod.splits if_splits)

lemma role_already_exists_continues:
  "iam_create_role w = ClientError e \<Longrightarrow> error_code e = ''EntityAlreadyExists'' \<Longrightarrow>
   create_role_stage w = ([CreateRole ROLE_NAME, Print (RoleAlreadyExists ROLE_NAME)], Continue ())"
  by (simp add: create_role_stage_def role_handler_def)

lemma role_other_error_stops:
  "iam_create_role w = ClientError e \<Longrightarrow> error_code e \<noteq> ''EntityAlreadyExists'' \<Longrightarrow>
   create_role_stage w = ([CreateRole ROLE_NAME, Print (ErrorCreatingRole e)], Stop)"
  by (simp add: create_role_stage_def role_handler_def)

lemma main_after_role:
  "sts_get_caller_identity w = Returned account_id \<Longrightarrow> snd (create_role_stage w) = Continue () \<Longrightarrow>
   main w =
     (case snd (create_policy_stage w account_id) of
        Continue policy_arn \<Rightarrow>
          (case snd (attach_stage w policy_arn) of
             Continue _ \<Rightarrow>
               (GetCallerIdentity # fst (create_role_stage w) @ fst (create_policy_stage w account_id) @
                  fst (attach_stage w policy_arn) @ [Print AllOperationsCompleted], Return ())
           | s3 \<Rightarrow>
               (GetCallerIdentity # fst (create_role_stage w) @ fst (create_policy_stage w account_id) @
                  fst (attach_stage w policy_arn), leave s3))
      | s2 \<Rightarrow> (GetCallerIdentity # fst (create_role_stage w) @ fst (create_policy_stage w account_id), leave s2))"
  by (auto simp: main_def Let_def split: prod.splits stage.splits)

lemma attach_stage_calls: "attach_calls (fst (attach_stage w policy_arn)) = [(ROLE_NAME, policy_arn)]"
  by (auto simp: attach_stage_def attach_calls_Cons Let_def split: api_result.splits)

lemma policy_already_exists_found:
  "iam_create_policy w = ClientError e \<Longrightarrow> error_code e = ''EntityAlreadyExists'' \<Longrightarrow>
   iam_get_policy w 0 (''arn:aws:iam::'' @ account_id @ '':policy/'' @ POLICY_NAME) = Returned a \<Longrightarrow>
   create_policy_stage w account_id =
     ([CreatePolicy POLICY_NAME, GetPolicy (''arn:aws:iam::'' @ account_id @ '':policy/'' @ POLICY_NAME),
       Print (PolicyAlreadyExists POLICY_NAME)], Continue a)"
  by (simp add: create_policy_stage_def policy_handler_def)

lemma policy_already_exists_lookup_fails:
  "iam_create_policy w = ClientError e \<Longrightarrow> error_code e = ''EntityAlreadyExists'' \<Longrightarrow>
   iam_get_policy w 0 (''arn:aws:iam::'' @ account_id @ '':policy/'' @ POLICY_NAME) = ClientError e' \<Longrightarrow>
   create_policy_stage w account_id =
     ([CreatePolicy POLICY_NAME, GetPolicy (''arn:aws:iam::'' @ account_id @ '':policy/'' @ POLICY_NAME),
       Print (ErrorGettingExistingPolicy e')], Stop)"
  by (simp add: create_policy_stage_def policy_handler_def)

lemma policy_other_error_stops:
  "iam_create_policy w = ClientError e \<Longrightarrow> error_code e \<noteq> ''EntityAlreadyExists'' \<Longrightarrow>
   create_policy_stage w account_id = ([CreatePolicy POLICY_NAME, Print (ErrorCreatingPolicy e)], Stop)"
  by (simp add: create_policy_stage_def policy_handler_def)

text \<open>
  Claim C7, as the claim states it, fails: when \<open>create_policy\<close> fails with
  \<open>EntityAlreadyExists\<close> and the lookup of the existing policy raises a client error, the
  script prints that error and returns; \<open>attach_role_policy\<close> is never called.
\<close>

theorem main_policy_lookup_fails_counterexample:
  "iam_create_policy aws_lookup_denied = ClientError entity_already_exists \<and>
   error_code entity_already_exists = ''EntityAlreadyExists'' \<and>
   main aws_lookup_denied =
     ([GetCallerIdentity, CreateRole ROLE_NAME, Print (RoleAlreadyExists ROLE_NAME),
       CreatePolicy POLICY_NAME,
       GetPolicy (''arn:aws:iam::123456789012:policy/'' @ POLICY_NAME),
       Print (ErrorGettingExistingPolicy access_denied)], Return ()) \<and>
   attach_calls (fst (main aws_lookup_denied)) = []"
  by (simp add: aws_lookup_denied_def aws_already_provisioned_def entity_already_exists_def
        main_def create_role_stage_def role_handler_def create_policy_stage_def policy_handler_def
        leave_def attach_calls_def)

text \<open>
  Claim C7, amended. In a run that got the account id:
  \<^item> a \<open>create_role\<close> failure with code \<open>EntityAlreadyExists\<close> prints that the role exists and
    the script goes on to \<open>create_policy\<close>;
  \<^item> a \<open>create_role\<close> failure with any other code prints the error and returns at once;
  \<^item> when the role step fell through, a \<open>create_policy\<close> failure with code
    \<open>EntityAlreadyExists\<close> makes the script look the policy up under
    \<open>arn:aws:iam::<account>:policy/<POLICY_NAME>\<close>; if the lookup returns, the ARN it returns
    is attached to the role (the only \<open>attach_role_policy\<close> call); if the lookup raises a
    client error, that error is printed and the script returns without attaching;
  \<^item> a \<open>create_policy\<close> failure with any other code prints the error and returns without
    attaching.
\<close>

theorem main_creation_failures:
  assumes account: "sts_get_caller_identity w = Returned account_id"
  shows
    "(\<forall>e. iam_create_role w = ClientError e \<and> error_code e = ''EntityAlreadyExists'' \<longrightarrow>
        create_role_stage w = ([CreateRole ROLE_NAME, Print (RoleAlreadyExists ROLE_NAME)], Continue ()) \<and>
        take 4 (fst (main w)) =
          [GetCallerIdentity, CreateRole ROLE_NAME, Print (RoleAlreadyExists ROLE_NAME),
           CreatePolicy POLICY_NAME]) \<and>
     (\<forall>e. iam_create_role w = ClientError e \<and> error_code e \<noteq> ''EntityAlreadyExists'' \<longrightarrow>
        main w = ([GetCallerIdentity, CreateRole ROLE_NAME, Print (ErrorCreatingRole e)], Return ())) \<and>
     (snd (create_role_stage w) = Continue () \<longrightarrow>
        (\<forall>e a. iam_create_policy w = ClientError e \<and> error_code e = ''EntityAlreadyExists'' \<and>
            iam_get_policy w 0 (''arn:aws:iam::'' @ account_id @ '':policy/'' @ POLICY_NAME) = Returned a \<longrightarrow>
            fst (main w) =
              GetCallerIdentity # fst (create_role_stage w) @
                [CreatePolicy POLICY_NAME,
                 GetPolicy (''arn:aws:iam::'' @ account_id @ '':policy/'' @ POLICY_NAME),
                 Print (PolicyAlreadyExists POLICY_NAME)] @
                fst (attach_stage w a) @
                (if snd (attach_stage w a) = Continue () then [Print AllOperationsCompleted] else []) \<and>
            attach_calls (fst (main w)) = [(ROLE_NAME, a)]) \<and>
        (\<forall>e e'. iam_create_policy w = ClientError e \<and> error_code e = ''EntityAlreadyExists'' \<and>
            iam_get_policy w 0 (''arn:aws:iam::'' @ account_id @ '':policy/'' @ POLICY_NAME) = ClientError e' \<longrightarrow>
            main w =
              (GetCallerIdentity # fst (create_role_stage w) @
                 [CreatePolicy POLICY_NAME,
                  GetPolicy (''arn:aws:iam::'' @ account_id @ '':policy/'' @ POLICY_NAME),
                  Print (ErrorGettingExistingPolicy e')], Return ()) \<and>
            attach_calls (fst (main w)) = []) \<and>
        (\<forall>e. iam_create_policy w = ClientError e \<and> error_code e \<noteq> ''EntityAlreadyExists'' \<longrightarrow>
            main w =
              (GetCallerIdentity # fst (create_role_stage w) @
                 [CreatePolicy POLICY_NAME, Print (ErrorCreatingPolicy e)], Return ()) \<and>
            attach_calls (fst (main w)) = []))"
proof (intro conjI allI impI; (elim conjE)?)
  fix e
  assume e: "iam_create_role w = ClientError e" "error_code e = ''EntityAlreadyExists''"
  show "create_role_stage w = ([CreateRole ROLE_NAME, Print (RoleAlreadyExists ROLE_NAME)], Continue ())"
    using e by (rule role_already_exists_continues)
  then have st: "snd (create_role_stage w) = Continue ()"
    and ev: "fst (create_role_stage w) = [CreateRole ROLE_NAME, Print (RoleAlreadyExists ROLE_NAME)]"
    by simp_all
  have hd: "\<exists>rest. fst (create_policy_stage w account_id) = CreatePolicy POLICY_NAME # rest"
    by (auto simp: create_policy_stage_def policy_handler_def Let_def
             split: api_result.splits outcome.splits prod.splits)
  then obtain rest where rest: "fst (create_policy_stage w account_id) = CreatePolicy POLICY_NAME # rest"
    by blast
  show "take 4 (fst (main w)) =
          [GetCallerIdentity, CreateRole ROLE_NAME, Print (RoleAlreadyExists ROLE_NAME),
           CreatePolicy POLICY_NAME]"
    unfolding main_after_role [OF account st] ev rest
    by (simp split: stage.splits)
next
  fix e
  assume e: "iam_create_role w = ClientError e" "error_code e \<noteq> ''EntityAlreadyExists''"
  show "main w = ([GetCallerIdentity, CreateRole ROLE_NAME, Print (ErrorCreatingRole e)], Return ())"
    using account role_other_error_stops [OF e]
    by (simp add: main_def leave_def)
next
  fix e a
  let ?arn = "''arn:aws:iam::'' @ account_id @ '':policy/'' @ POLICY_NAME"
  assume st: "snd (create_role_stage w) = Continue ()"
    and e: "iam_create_policy w = ClientError e" "error_code e = ''EntityAlreadyExists''"
    and a: "iam_get_policy w 0 ?arn = Returned a"
  note ps = policy_already_exists_found [OF e a]
  show m: "fst (main w) =
     GetCallerIdentity # fst (create_role_stage w) @
       [CreatePolicy POLICY_NAME, GetPolicy ?arn, Print (PolicyAlreadyExists POLICY_NAME)] @
       fst (attach_stage w a) @
       (if snd (attach_stage w a) = Continue () then [Print AllOperationsCompleted] else [])"
    unfolding main_after_role [OF account st] ps
    by (simp split: stage.splits)
  show "attach_calls (fst (main w)) = [(ROLE_NAME, a)]"
    unfolding m
    by (simp add: attach_calls_Cons create_role_stage_no_attach attach_stage_calls)
next
  fix e e'
  let ?arn = "''arn:aws:iam::'' @ account_id @ '':policy/'' @ POLICY_NAME"
  assume st: "snd (create_role_stage w) = Continue ()"
    and e: "iam_create_policy w = ClientError e" "error_code e = ''EntityAlreadyExists''"
    and a: "iam_get_policy w 0 ?arn = ClientError e'"
  note ps = policy_already_exists_lookup_fails [OF e a]
  show m: "main w =
     (GetCallerIdentity # fst (create_role_stage w) @
        [CreatePolicy POLICY_NAME, GetPolicy ?arn, Print (ErrorGettingExistingPolicy e')], Return ())"
    unfolding main_after_role [OF account st] ps
    by (simp add: leave_def)
  show "attach_calls (fst (main w)) = []"
    unfolding m
    by (simp add: attach_calls_Cons create_role_stage_no_attach)
next
  fix e
  assume st: "snd (create_role_stage w) = Continue ()"
    and e: "iam_create_policy w = ClientError e" "error_code e \<noteq> ''EntityAlreadyExists''"
  note ps = policy_other_error_stops [OF e]
  show m: "main w =
     (GetCallerIdentity # fst (create_role_stage w) @
        [CreatePolicy POLICY_NAME, Print (ErrorCreatingPolicy e)], Return ())"
    unfolding main_after_role [OF account st] ps
    by (simp add: leave_def)
  show "attach_calls (fst (main w)) = []"
    unfolding m
    by (simp add: attach_calls_Cons create_role_stage_no_attach)
qed

theorem main_creation_failures_witness:
  "take 4 (fst (main aws_already_provisioned)) =
     [GetCallerIdentity, CreateRole ROLE_NAME, Print (RoleAlreadyExists ROLE_NAME),
      CreatePolicy POLICY_NAME] \<and>
   attach_calls (fst (main aws_already_provisioned)) =
     [(ROLE_NAME, ''arn:aws:iam::123456789012:policy/'' @ POLICY_NAME)] \<and>
   main (aws_already_provisioned \<lparr> iam_create_role := ClientError access_denied \<rparr>) =
     ([GetCallerIdentity, CreateRole ROLE_NAME, Print (ErrorCreatingRole access_denied)], Return ()) \<and>
   main (aws_already_provisioned \<lparr> iam_get_policy := (\<lambda>k arn. ClientError access_denied) \<rparr>) =
     ([GetCallerIdentity, CreateRole ROLE_NAME, Print (RoleAlreadyExists ROLE_NAME),
       CreatePolicy POLICY_NAME,
       GetPolicy (''arn:aws:iam::123456789012:policy/'' @ POLICY_NAME),
       Print (ErrorGettingExistingPolicy access_denied)], Return ()) \<and>
   main (aws_already_provisioned \<lparr> iam_create_policy := ClientError access_denied \<rparr>) =
     ([GetCallerIdentity, CreateRole ROLE_NAME, Print (RoleAlreadyExists ROLE_NAME),
       CreatePolicy POLICY_NAME, Print (ErrorCreatingPolicy access_denied)], Return ())"
proof -
  let ?w1 = "aws_already_provisioned"
  let ?w2 = "aws_already_provisioned \<lparr> iam_create_role := ClientError access_denied \<rparr>"
  let ?w3 = "aws_already_provisioned \<lparr> iam_get_policy := (\<lambda>k arn. ClientError access_denied) \<rparr>"
  let ?w4 = "aws_already_provisioned \<lparr> iam_create_policy := ClientError access_denied \<rparr>"
  have codes: "error_code entity_already_exists = ''EntityAlreadyExists''"
    "error_code access_denied \<noteq> ''EntityAlreadyExists''"
    by (simp_all add: entity_already_exists_def access_denied_def)
  have acct: "sts_get_caller_identity ?w1 = Returned ''123456789012''"
    "sts_get_caller_identity ?w2 = Returned ''123456789012''"
    "sts_get_caller_identity ?w3 = Returned ''123456789012''"
    "sts_get_caller_identity ?w4 = Returned ''123456789012''"
    by (simp_all add: aws_already_provisioned_def)
  have role: "create_role_stage ?w1 = ([CreateRole ROLE_NAME, Print (RoleAlreadyExists ROLE_NAME)], Continue ())"
    "create_role_stage ?w3 = ([CreateRole ROLE_NAME, Print (RoleAlreadyExists ROLE_NAME)], Continue ())"
    "create_role_stage ?w4 = ([CreateRole ROLE_NAME, Print (RoleAlreadyExists ROLE_NAME)], Continue ())"
    by (simp_all add: aws_already_provisioned_def create_role_stage_def role_handler_def codes)
  have st: "snd (create_role_stage ?w1) = Continue ()" "snd (create_role_stage ?w3) = Continue ()"
    "snd (create_role_stage ?w4) = Continue ()"
    using role by simp_all
  let ?arn = "''arn:aws:iam::'' @ ''123456789012'' @ '':policy/'' @ POLICY_NAME"
  have cr: "iam_create_role ?w1 = ClientError entity_already_exists"
    "iam_create_role ?w2 = ClientError access_denied"
    by (simp_all add: aws_already_provisioned_def)
  have cp: "iam_create_policy ?w1 = ClientError entity_already_exists"
    "iam_create_policy ?w3 = ClientError entity_already_exists"
    "iam_create_policy ?w4 = ClientError access_denied"
    by (simp_all add: aws_already_provisioned_def)
  have gp: "iam_get_policy ?w1 0 ?arn = Returned ?arn" "iam_get_policy ?w3 0 ?arn = ClientError access_denied"
    by (simp_all add: aws_already_provisioned_def)
  have p1: "take 4 (fst (main ?w1)) =
     [GetCallerIdentity, CreateRole ROLE_NAME, Print (RoleAlreadyExists ROLE_NAME), CreatePolicy POLICY_NAME]"
    using main_creation_failures [OF acct(1)] codes(1) cr(1) by blast
  have p2: "attach_calls (fst (main ?w1)) = [(ROLE_NAME, ?arn)]"
    using main_creation_failures [OF acct(1)] codes(1) st(1) cp(1) gp(1) by blast
  have p3: "main ?w2 = ([GetCallerIdentity, CreateRole ROLE_NAME, Print (ErrorCreatingRole access_denied)], Return ())"
    using main_creation_failures [OF acct(2)] codes(2) cr(2) by blast
  have "main ?w3 =
     (GetCallerIdentity # fst (create_role_stage ?w3) @
        [CreatePolicy POLICY_NAME, GetPolicy ?arn, Print (ErrorGettingExistingPolicy access_denied)], Return ())"
    using main_creation_failures [OF acct(3)] codes(1) st(2) cp(2) gp(2) by blast
  then have p4: "main ?w3 =
     ([GetCallerIdentity, CreateRole ROLE_NAME, Print (RoleAlreadyExists ROLE_NAME),
       CreatePolicy POLICY_NAME, GetPolicy (''arn:aws:iam::123456789012:policy/'' @ POLICY_NAME),
       Print (ErrorGettingExistingPolicy access_denied)], Return ())"
    by (simp add: role(2))
  have "main ?w4 =
     (GetCallerIdentity # fst (create_role_stage ?w4) @
        [CreatePolicy POLICY_NAME, Print (ErrorCreatingPolicy access_denied)], Return ())"
    using main_creation_failures [OF acct(4)] codes(2) st(3) cp(3) by blast
  then have p5: "main ?w4 =
     ([GetCallerIdentity, CreateRole ROLE_NAME, Print (RoleAlreadyExists ROLE_NAME),
       CreatePolicy POLICY_NAME, Print (ErrorCreatingPolicy access_denied)], Return ())"
    by (simp add: role(3))
  from p1 p2 p3 p4 p5 show ?thesis by simp
qed

subsection \<open>create\_branches\<close>

lemma create_git_ref_calls_append [simp]:
  "create_git_ref_calls (xs @ ys) = create_git_ref_calls xs @ create_git_ref_calls ys"
  by (simp add: create_git_ref_calls_def)


lemma create_git_ref_calls_Nil [simp]: "create_git_ref_calls [] = []"
  by (simp add: create_git_ref_calls_def)

lemma loop_result_simps [simp]:
  "loop_events (evs, refs, r) = evs" "loop_refs (evs, refs, r) = refs" "loop_end (evs, refs, r) = r"
  by (simp_all add: loop_events_def loop_refs_def loop_end_def)

lemma loop_end_not_Completed [simp]: "(r \<noteq> Completed) = (r = MarkupError)" for r :: loop_end
  by (cases r) simp_all


















subsection \<open>Settings: resource suffix and storage bucket\<close>

lemma storage_name:
  "replace (lower (replace ''S3_BUCKET_STORAGE'' ''S3_BUCKET_'' '''')) ''_'' ''-'' = ''storage''"
  by (simp add: replace_def lower_def lower_char_def)

lemma validate_s3_buckets_storage:
  "validate_s3_buckets value data ''S3_BUCKET_STORAGE'' = Inr bucket \<Longrightarrow>
   (value \<noteq> ''<changeme>'' \<longrightarrow> bucket = value) \<and>
   (value = ''<changeme>'' \<longrightarrow>
      (\<exists>slug suffix. data ''PROJECT_SLUG'' = Some slug \<and> data ''AWS_RESOURCE_SUFFIX'' = Some suffix \<and>
         bucket = slug @ ''-'' @ suffix @ ''-storage''))"
  unfolding validate_s3_buckets_def storage_name
  by (auto simp: data_get_def split: if_splits option.splits sum.splits)

lemma construct_aws_resource_suffix_result:
  "construct_aws_resource_suffix value data = Inr suffix \<Longrightarrow>
   (value \<noteq> ''<changeme>'' \<longrightarrow> suffix = value) \<and>
   (value = ''<changeme>'' \<longrightarrow> data ''ENVIRONMENT'' = Some suffix)"
  by (auto simp: construct_aws_resource_suffix_def data_get_def split: if_splits option.splits)

text \<open>
  Claim C3. In every \<open>Settings\<close> instance that validates:
  \<^item> when \<open>S3_BUCKET_STORAGE\<close> is left at \<open><changeme>\<close>, it resolves to
    \<open>PROJECT_SLUG-AWS_RESOURCE_SUFFIX-storage\<close>, with the resolved suffix;
  \<^item> when \<open>AWS_RESOURCE_SUFFIX\<close> is left at \<open><changeme>\<close>, it resolves to \<open>ENVIRONMENT\<close>;
  \<^item> a supplied value other than \<open><changeme>\<close> is kept as it is, for either field.
\<close>

theorem Settings_S3_BUCKET_STORAGE:
  assumes "Settings sts_account inp = Inr s"
  shows "(field_or ''<changeme>'' (in_S3_BUCKET_STORAGE inp) = ''<changeme>'' \<longrightarrow>
            S3_BUCKET_STORAGE s = PROJECT_SLUG s @ ''-'' @ AWS_RESOURCE_SUFFIX s @ ''-storage'') \<and>
         (field_or ''<changeme>'' (in_AWS_RESOURCE_SUFFIX inp) = ''<changeme>'' \<longrightarrow>
            AWS_RESOURCE_SUFFIX s = ENVIRONMENT s) \<and>
         (\<forall>v. in_S3_BUCKET_STORAGE inp = Some v \<and> v \<noteq> ''<changeme>'' \<longrightarrow> S3_BUCKET_STORAGE s = v) \<and>
         (\<forall>v. in_AWS_RESOURCE_SUFFIX inp = Some v \<and> v \<noteq> ''<changeme>'' \<longrightarrow> AWS_RESOURCE_SUFFIX s = v)"
proof -
  let ?suffix_in = "field_or ''<changeme>'' (in_AWS_RESOURCE_SUFFIX inp)"
  let ?bucket_in = "field_or ''<changeme>'' (in_S3_BUCKET_STORAGE inp)"
  let ?slug = "field_or ''salesforce-integration'' (in_PROJECT_SLUG inp)"
  let ?env = "field_or '''' (in_ENVIRONMENT inp)"
  let ?data2 = "[''PROJECT_SLUG'' \<mapsto> ?slug, ''ENVIRONMENT'' \<mapsto> ?env]"
  have env_ok: "(case in_ENVIRONMENT inp of None \<Rightarrow> False | Some v \<Rightarrow> v \<in> set ENVIRONMENTS)"
    using assms unfolding Settings_def Let_def
    by (auto split: sum.splits if_splits)
  have fields: "PROJECT_SLUG s = ?slug" "ENVIRONMENT s = ?env"
    using assms unfolding Settings_def Let_def
    by (auto split: sum.splits if_splits)
  have suffix: "construct_aws_resource_suffix ?suffix_in ?data2 = Inr (AWS_RESOURCE_SUFFIX s)"
    using assms env_ok unfolding Settings_def Let_def
    by (auto split: sum.splits if_splits)
  let ?data5 = "?data2(''AWS_RESOURCE_SUFFIX'' \<mapsto> AWS_RESOURCE_SUFFIX s,
                       ''AWS_ACCOUNT_ID'' \<mapsto> AWS_ACCOUNT_ID s, ''AWS_REGION'' \<mapsto> AWS_REGION s)"
  have bucket: "validate_s3_buckets ?bucket_in ?data5 ''S3_BUCKET_STORAGE'' = Inr (S3_BUCKET_STORAGE s)"
    using assms env_ok unfolding Settings_def Let_def
    by (auto split: sum.splits if_splits)
  have d5: "?data5 ''PROJECT_SLUG'' = Some ?slug"
    "?data5 ''AWS_RESOURCE_SUFFIX'' = Some (AWS_RESOURCE_SUFFIX s)"
    by simp_all
  from validate_s3_buckets_storage [OF bucket] d5 fields
  have b: "?bucket_in = ''<changeme>'' \<longrightarrow>
            S3_BUCKET_STORAGE s = PROJECT_SLUG s @ ''-'' @ AWS_RESOURCE_SUFFIX s @ ''-storage''"
    "?bucket_in \<noteq> ''<changeme>'' \<longrightarrow> S3_BUCKET_STORAGE s = ?bucket_in"
    by auto
  from construct_aws_resource_suffix_result [OF suffix] fields
  have a: "?suffix_in = ''<changeme>'' \<longrightarrow> AWS_RESOURCE_SUFFIX s = ENVIRONMENT s"
    "?suffix_in \<noteq> ''<changeme>'' \<longrightarrow> AWS_RESOURCE_SUFFIX s = ?suffix_in"
    by auto
  from a b show ?thesis by (auto simp: field_or_def)
qed

theorem Settings_S3_BUCKET_STORAGE_witness:
  "Settings (Inr ''123456789012'') staging_defaults =
     Inr \<lparr> PROJECT_SLUG = ''salesforce-integration'', ENVIRONMENT = ''staging'',
           AWS_RESOURCE_SUFFIX = ''staging'', AWS_ACCOUNT_ID = ''123456789012'',
           AWS_REGION = ''us-west-2'',
           S3_BUCKET_STORAGE = ''salesforce-integration-staging-storage'',
           SQS_QUEUE_MESSAGES = ''salesforce-integration-staging-messages'' \<rparr> \<and>
   (\<exists>s. Settings (Inr ''123456789012'') staging_explicit = Inr s \<and>
        AWS_RESOURCE_SUFFIX s = ''blue'' \<and> S3_BUCKET_STORAGE s = ''my-bucket'')"
proof -
  obtain s1 where s1: "Settings (Inr ''123456789012'') staging_defaults = Inr s1"
    and f1: "PROJECT_SLUG s1 = ''salesforce-integration''" "ENVIRONMENT s1 = ''staging''"
      "AWS_ACCOUNT_ID s1 = ''123456789012''" "AWS_REGION s1 = ''us-west-2''"
      "SQS_QUEUE_MESSAGES s1 = ''salesforce-integration-staging-messages''"
    by (simp add: Settings_def Let_def staging_defaults_def field_or_def ENVIRONMENTS_def
          construct_aws_resource_suffix_def validate_account_id_def validate_s3_buckets_def
          validate_sqs_queues_def data_get_def replace_def lower_def lower_char_def)
  obtain s2 where s2: "Settings (Inr ''123456789012'') staging_explicit = Inr s2"
    by (simp add: Settings_def Let_def staging_explicit_def staging_defaults_def field_or_def ENVIRONMENTS_def
          construct_aws_resource_suffix_def validate_account_id_def validate_s3_buckets_def
          validate_sqs_queues_def data_get_def replace_def lower_def lower_char_def)
  have d: "field_or ''<changeme>'' (in_S3_BUCKET_STORAGE staging_defaults) = ''<changeme>''"
    "field_or ''<changeme>'' (in_AWS_RESOURCE_SUFFIX staging_defaults) = ''<changeme>''"
    by (simp_all add: staging_defaults_def field_or_def)
  have e: "in_S3_BUCKET_STORAGE staging_explicit = Some ''my-bucket'' \<and> ''my-bucket'' \<noteq> ''<changeme>''"
    "in_AWS_RESOURCE_SUFFIX staging_explicit = Some ''blue'' \<and> ''blue'' \<noteq> ''<changeme>''"
    by (simp_all add: staging_explicit_def)
  from Settings_S3_BUCKET_STORAGE [OF s1] d f1
  have "AWS_RESOURCE_SUFFIX s1 = ''staging''"
    "S3_BUCKET_STORAGE s1 = ''salesforce-integration-staging-storage''"
    by simp_all
  with f1 have r1: "s1 = \<lparr> PROJECT_SLUG = ''salesforce-integration'', ENVIRONMENT = ''staging'',
           AWS_RESOURCE_SUFFIX = ''staging'', AWS_ACCOUNT_ID = ''123456789012'',
           AWS_REGION = ''us-west-2'',
           S3_BUCKET_STORAGE = ''salesforce-integration-staging-storage'',
           SQS_QUEUE_MESSAGES = ''salesforce-integration-staging-messages'' \<rparr>"
    by (cases s1) simp
  from Settings_S3_BUCKET_STORAGE [OF s2] e
  have r2: "AWS_RESOURCE_SUFFIX s2 = ''blue'' \<and> S3_BUCKET_STORAGE s2 = ''my-bucket''"
    by blast
  from s1 r1 s2 r2 show ?thesis by blast
qed

subsection \<open>Settings: SENTRY\_DSN\<close>

text \<open>
  Claim C4. The property resolves in this order:
  \<^item> when \<open>get_env_value\<close> finds a value, no secret is fetched; the result is \<open>None\<close> when the
    value, stripped of spaces and lowercased, is empty, \<open>null\<close> or \<open>none\<close>, and the value parsed
    as an HTTP URL otherwise;
  \<^item> when it finds none and \<open>ENVIRONMENT\<close> is \<open>testing\<close>, the result is \<open>None\<close> and no secret is
    fetched;
  \<^item> otherwise exactly the secret \<open>PROJECT_SLUG-shared-resources-sentry-dsn\<close> is fetched; a
    \<open>dsn\<close> that is \<open>None\<close>, or blank, \<open>null\<close> or \<open>none\<close> in the same sense, gives \<open>None\<close>, and any
    other \<open>dsn\<close> is parsed as an HTTP URL.
\<close>

theorem SENTRY_DSN_resolution:
  "(\<forall>v. get_env_value environ env_files ''SENTRY_DSN'' = Some v \<longrightarrow>
      SENTRY_DSN http_url get_secret environ env_files self =
        ([], if lower (strip '' '' v) \<in> {'''', ''null'', ''none''} then Inr None else HttpUrl http_url v)) \<and>
   (get_env_value environ env_files ''SENTRY_DSN'' = None \<and> ENVIRONMENT self = ''testing'' \<longrightarrow>
      SENTRY_DSN http_url get_secret environ env_files self = ([], Inr None)) \<and>
   (get_env_value environ env_files ''SENTRY_DSN'' = None \<and> ENVIRONMENT self \<noteq> ''testing'' \<longrightarrow>
      fst (SENTRY_DSN http_url get_secret environ env_files self) =
        [PROJECT_SLUG self @ ''-shared-resources-sentry-dsn''] \<and>
      (\<forall>secret. get_secret (PROJECT_SLUG self @ ''-shared-resources-sentry-dsn'') = Inr secret \<longrightarrow>
         (secret ''dsn'' = Some None \<longrightarrow>
            snd (SENTRY_DSN http_url get_secret environ env_files self) = Inr None) \<and>
         (\<forall>dsn. secret ''dsn'' = Some (Some dsn) \<longrightarrow>
            snd (SENTRY_DSN http_url get_secret environ env_files self) =
              (if lower (strip '' '' dsn) \<in> {'''', ''null'', ''none''} then Inr None
               else HttpUrl http_url dsn))))"
  by (auto simp: SENTRY_DSN_def Let_def split: sum.splits option.splits)

theorem SENTRY_DSN_resolution_witness:
  "SENTRY_DSN https_url sentry_secrets [''SENTRY_DSN'' \<mapsto> '' NULL ''] [] production_settings =
     ([], Inr None) \<and>
   SENTRY_DSN https_url sentry_secrets Map.empty [None, Some [''SENTRY_DSN'' \<mapsto> Some ''https://a@b/3'']]
     production_settings = ([], Inr (Some ''https://a@b/3'')) \<and>
   SENTRY_DSN https_url sentry_secrets Map.empty [] testing_settings = ([], Inr None) \<and>
   fst (SENTRY_DSN https_url sentry_secrets Map.empty [] production_settings) =
     [''salesforce-integration-shared-resources-sentry-dsn''] \<and>
   snd (SENTRY_DSN https_url sentry_secrets Map.empty [] production_settings) =
     Inr (Some ''https://key@sentry.example/1'') \<and>
   snd (SENTRY_DSN https_url null_secrets Map.empty [] production_settings) = Inr None"
proof -
  let ?files = "[None, Some [''SENTRY_DSN'' \<mapsto> Some ''https://a@b/3'']]"
  have blank: "lower (strip '' '' '' NULL '') \<in> {'''', ''null'', ''none''}"
    "lower (strip '' '' ''https://a@b/3'') \<notin> {'''', ''null'', ''none''}"
    "lower (strip '' '' ''https://key@sentry.example/1'') \<notin> {'''', ''null'', ''none''}"
    by (simp_all add: lower_def lower_char_def strip_def)
  have env: "get_env_value [''SENTRY_DSN'' \<mapsto> '' NULL ''] [] ''SENTRY_DSN'' = Some '' NULL ''"
    "get_env_value Map.empty ?files ''SENTRY_DSN'' = Some ''https://a@b/3''"
    "get_env_value Map.empty [] ''SENTRY_DSN'' = None"
    by (simp_all add: get_env_value_def)
  have url: "HttpUrl https_url ''https://a@b/3'' = Inr (Some ''https://a@b/3'')"
    "HttpUrl https_url ''https://key@sentry.example/1'' = Inr (Some ''https://key@sentry.example/1'')"
    by (simp_all add: HttpUrl_def https_url_def)
  have envs: "ENVIRONMENT testing_settings = ''testing''" "ENVIRONMENT production_settings \<noteq> ''testing''"
    "PROJECT_SLUG production_settings = ''salesforce-integration''"
    by (simp_all add: testing_settings_def production_settings_def)
  have secret: "sentry_secrets (''salesforce-integration'' @ ''-shared-resources-sentry-dsn'') =
      Inr [''dsn'' \<mapsto> Some ''https://key@sentry.example/1'']"
    "[''dsn'' \<mapsto> Some ''https://key@sentry.example/1''] ''dsn'' = Some (Some ''https://key@sentry.example/1'')"
    by (simp_all add: sentry_secrets_def)
  have p1: "SENTRY_DSN https_url sentry_secrets [''SENTRY_DSN'' \<mapsto> '' NULL ''] [] production_settings =
     ([], Inr None)"
    using SENTRY_DSN_resolution [of "[''SENTRY_DSN'' \<mapsto> '' NULL '']" "[]" https_url sentry_secrets
            production_settings] env(1) blank(1)
    by simp
  have p2: "SENTRY_DSN https_url sentry_secrets Map.empty ?files production_settings =
     ([], Inr (Some ''https://a@b/3''))"
    using SENTRY_DSN_resolution [of Map.empty ?files https_url sentry_secrets production_settings]
      env(2) blank(2) url(1)
    by simp
  have p3: "SENTRY_DSN https_url sentry_secrets Map.empty [] testing_settings = ([], Inr None)"
    using SENTRY_DSN_resolution [of Map.empty "[]" https_url sentry_secrets testing_settings]
      env(3) envs(1)
    by simp
  note r = SENTRY_DSN_resolution [of Map.empty "[]" https_url sentry_secrets production_settings]
  have p4: "fst (SENTRY_DSN https_url sentry_secrets Map.empty [] production_settings) =
     [''salesforce-integration-shared-resources-sentry-dsn'']"
    using r env(3) envs(2,3) by simp
  have "snd (SENTRY_DSN https_url sentry_secrets Map.empty [] production_settings) =
     (if lower (strip '' '' ''https://key@sentry.example/1'') \<in> {'''', ''null'', ''none''} then Inr None
      else HttpUrl https_url ''https://key@sentry.example/1'')"
    using r env(3) envs(2,3) secret by (metis (no_types, lifting))
  then have p5: "snd (SENTRY_DSN https_url sentry_secrets Map.empty [] production_settings) =
     Inr (Some ''https://key@sentry.example/1'')"
    using blank(3) url(2) by simp
  have null: "null_secrets (''salesforce-integration'' @ ''-shared-resources-sentry-dsn'') =
      Inr [''dsn'' \<mapsto> None]"
    "[''dsn'' \<mapsto> (None :: string option)] ''dsn'' = Some None"
    by (simp_all add: null_secrets_def)
  have p6: "snd (SENTRY_DSN https_url null_secrets Map.empty [] production_settings) = Inr None"
    using SENTRY_DSN_resolution [of Map.empty "[]" https_url null_secrets production_settings]
      env(3) envs(2,3) null
    by (metis (no_types, lifting))
  from p1 p2 p3 p4 p5 p6 show ?thesis by simp
qed

subsection \<open>TimeRange\<close>

lemma datetime_gt_le: "datetime_gt a b = Inr False \<longleftrightarrow> datetime_le a b = Inr True"
  by (cases a; cases b) (auto simp: datetime_gt_def datetime_le_def)





subsection \<open>async\_handler\<close>

lemma try_except_events: "fst (try_except format_exception_only body execution) = []"
  by (auto simp: try_except_def Let_def split: completion.splits list.splits)

lemma create_all_tasks_finally:
  "create_all_tasks (fst (finally_clause create_all execution)) = [execution]"
  by (auto simp: finally_clause_def create_all_tasks_def split: sum.splits)

lemma finally_clause_starts:
  "\<exists>rest. fst (finally_clause create_all execution) = CreateTask_create_all execution # AwaitShield # rest"
  by (auto simp: finally_clause_def split: sum.splits)

lemma async_handler_entered:
  "new_execution (PROJECT_SLUG settings @ '' '' @ ENVIRONMENT settings @ '' Do something'') event = Inr x \<Longrightarrow>
   async_handler new_execution body format_exception_only create_all settings event =
     (fst (try_except format_exception_only (body event) x) @
        fst (finally_clause create_all (fst (snd (try_except format_exception_only (body event) x)))),
      case snd (finally_clause create_all (fst (snd (try_except format_exception_only (body event) x)))) of
        Some e \<Rightarrow> Raises e
      | None \<Rightarrow> snd (snd (try_except format_exception_only (body event) x)))"
  by (auto simp add: async_handler_def split: prod.splits option.splits)

lemma sample_entered:
  "fresh_execution (PROJECT_SLUG production_settings @ '' '' @ ENVIRONMENT production_settings @
     '' Do something'') sample_event = Inr sample_execution"
  by (simp add: fresh_execution_def production_settings_def sample_execution_def)

text \<open>
  Claim C1. In every invocation that reaches the \<open>try\<close> statement, however the body of the
  \<open>try\<close> ends (normally, with an exception, or with an exception that is not an
  \<open>Exception\<close>) and whatever \<open>create_all\<close> does: the \<open>finally\<close> clause creates the task for
  \<open>execution.create_all()\<close> and awaits it under \<open>asyncio.shield\<close>, after everything the
  \<open>try\<close> statement did; that task is the only one the handler creates, and it writes the
  execution as the \<open>try\<close> statement left it.
\<close>

theorem async_handler_create_all_once:
  assumes "new_execution (PROJECT_SLUG settings @ '' '' @ ENVIRONMENT settings @ '' Do something'') event = Inr x"
  shows "(\<exists>rest. fst (async_handler new_execution body format_exception_only create_all settings event) =
            fst (try_except format_exception_only (body event) x) @
            CreateTask_create_all (fst (snd (try_except format_exception_only (body event) x))) #
            AwaitShield # rest) \<and>
         create_all_tasks (fst (async_handler new_execution body format_exception_only create_all settings event)) =
           [fst (snd (try_except format_exception_only (body event) x))]"
proof -
  let ?x1 = "fst (snd (try_except format_exception_only (body event) x))"
  obtain rest where rest: "fst (finally_clause create_all ?x1) = CreateTask_create_all ?x1 # AwaitShield # rest"
    using finally_clause_starts by blast
  have tasks: "create_all_tasks (fst (finally_clause create_all ?x1)) = [?x1]"
    by (rule create_all_tasks_finally)
  show ?thesis
    unfolding async_handler_entered [of new_execution settings event x, OF assms] fst_conv
  proof (intro conjI)
    show "\<exists>rest. fst (try_except format_exception_only (body event) x) @ fst (finally_clause create_all ?x1) =
            fst (try_except format_exception_only (body event) x) @ CreateTask_create_all ?x1 # AwaitShield # rest"
      using rest by simp
    show "create_all_tasks (fst (try_except format_exception_only (body event) x) @
            fst (finally_clause create_all ?x1)) = [?x1]"
      using tasks by (simp add: try_except_events)
  qed
qed

theorem async_handler_create_all_once_witness:
  "create_all_tasks
     (fst (async_handler fresh_execution (\<lambda>event. Raises value_error) format_plain create_all_fails
             production_settings sample_event)) =
     [sample_execution \<lparr> error_message := Some (''ValueError: bad input'' @ [CHR 0x0A]) \<rparr>] \<and>
   create_all_tasks
     (fst (async_handler fresh_execution (\<lambda>event. Normal) format_plain create_all_ok
             production_settings sample_event)) =
     [sample_execution \<lparr> response_payload := Some [(''success'', True)], success := Some True \<rparr>] \<and>
   create_all_tasks
     (fst (async_handler fresh_execution (\<lambda>event. RaisesBaseException ''CancelledError'') format_plain
             create_all_ok production_settings sample_event)) = [sample_execution]"
proof -
  have t1: "fst (snd (try_except format_plain (Raises value_error) sample_execution)) =
      sample_execution \<lparr> error_message := Some (''ValueError: bad input'' @ [CHR 0x0A]) \<rparr>"
    by (simp add: try_except_def as_exception_group_def exceptions_def value_error_def format_plain_def)
  have t2: "fst (snd (try_except format_plain Normal sample_execution)) =
      sample_execution \<lparr> response_payload := Some [(''success'', True)], success := Some True \<rparr>"
    by (simp add: try_except_def)
  have t3: "fst (snd (try_except format_plain (RaisesBaseException ''CancelledError'') sample_execution)) =
      sample_execution"
    by (simp add: try_except_def)
  from async_handler_create_all_once
         [of fresh_execution production_settings sample_event sample_execution
             "\<lambda>event. Raises value_error" format_plain create_all_fails, OF sample_entered]
       async_handler_create_all_once
         [of fresh_execution production_settings sample_event sample_execution
             "\<lambda>event. Normal" format_plain create_all_ok, OF sample_entered]
       async_handler_create_all_once
         [of fresh_execution production_settings sample_event sample_execution
             "\<lambda>event. RaisesBaseException ''CancelledError''" format_plain create_all_ok, OF sample_entered]
  show ?thesis
    by (simp only: t1 t2 t3)
qed



text \<open>
  Claim C10. When the body of the \<open>try\<close> completes without an exception, the handler sets
  \<open>response_payload\<close> to \<open>{"success": True}\<close> and \<open>success\<close> to \<open>True\<close>, and that is the
  execution handed to \<open>create_all\<close>. The branch for soft errors is never taken: however the
  body ends, the \<open>try\<close> statement logs no warning, and \<open>success\<close> is either \<open>True\<close> or what it
  was before.
\<close>

theorem try_except_no_soft_errors:
  "try_except format_exception_only Normal execution =
     ([], execution \<lparr> response_payload := Some [(''success'', True)], success := Some True \<rparr>, Normal) \<and>
   (\<forall>body evs x r. try_except format_exception_only body execution = (evs, x, r) \<longrightarrow>
      evs = [] \<and> (success x = Some True \<or> success x = success execution)) \<and>
   (\<forall>x. new_execution (PROJECT_SLUG settings @ '' '' @ ENVIRONMENT settings @ '' Do something'') event = Inr x \<and>
        body event = Normal \<longrightarrow>
        create_all_tasks (fst (async_handler new_execution body format_exception_only create_all settings event)) =
          [x \<lparr> response_payload := Some [(''success'', True)], success := Some True \<rparr>])"
proof (intro conjI allI impI)
  show "try_except format_exception_only Normal execution =
     ([], execution \<lparr> response_payload := Some [(''success'', True)], success := Some True \<rparr>, Normal)"
    by (simp add: try_except_def)
next
  fix body evs x r
  assume "try_except format_exception_only body execution = (evs, x, r)"
  then show "evs = []" and "success x = Some True \<or> success x = success execution"
    by (auto simp: try_except_def Let_def split: completion.splits list.splits)
next
  fix x
  assume a: "new_execution (PROJECT_SLUG settings @ '' '' @ ENVIRONMENT settings @ '' Do something'') event = Inr x \<and>
        body event = Normal"
  then have entered: "new_execution (PROJECT_SLUG settings @ '' '' @ ENVIRONMENT settings @ '' Do something'') event = Inr x"
    and body: "body event = Normal"
    by simp_all
  show "create_all_tasks (fst (async_handler new_execution body format_exception_only create_all settings event)) =
          [x \<lparr> response_payload := Some [(''success'', True)], success := Some True \<rparr>]"
    unfolding async_handler_entered [of new_execution settings event x, OF entered] body
    by (simp add: try_except_def create_all_tasks_def finally_clause_def split: sum.splits)
qed

theorem try_except_no_soft_errors_witness:
  "try_except format_plain Normal sample_execution =
     ([], sample_execution \<lparr> response_payload := Some [(''success'', True)], success := Some True \<rparr>,
      Normal) \<and>
   create_all_tasks
     (fst (async_handler fresh_execution (\<lambda>event. Normal) format_plain create_all_ok
             production_settings sample_event)) =
     [sample_execution \<lparr> response_payload := Some [(''success'', True)], success := Some True \<rparr>]"
  using try_except_no_soft_errors
          [of format_plain sample_execution fresh_execution production_settings sample_event
              "\<lambda>event. Normal" create_all_ok]
        sample_entered
  by simp

end
